theory Spec2Isabelle
  imports Complex_Main "HOL-Library.Multiset"
begin

section \<open>Python values used by the scorers\<close>

text \<open>
  In the scorers that compare similarities against thresholds and divide years, Python
  floats are modelled as \<^typ>\<open>real\<close>: the comparisons and the arithmetic are taken exactly,
  without IEEE rounding, infinities or NaN. The overall score is rounded to two decimals,
  where the rounding of doubles decides the last digit; there floats are IEEE doubles
  (next section). Exceptions are values: every function that can raise returns
  \<open>exn + 'a\<close>, with \<open>Inl\<close> the exception.
\<close>

datatype exn =
    IndexError
  | ValueError string
  | TypeError
  | ValidationError string
  | Exception string
  | Raised string  \<comment> \<open>an exception raised inside an external collaborator\<close>

text \<open>\<open>xs[i]\<close> for a non-negative index: out of range raises \<open>IndexError\<close>.\<close>

definition py_index :: "'a list \<Rightarrow> nat \<Rightarrow> exn + 'a" where
  "py_index xs i = (if i < length xs then Inr (xs ! i) else Inl IndexError)"

section \<open>Python floats as IEEE doubles\<close>

text \<open>
  A Python float is an IEEE 754 double: a number \<open>m * 2^e\<close> with integers \<open>m\<close> and \<open>e\<close> and
  \<open>|m| < 2^53\<close>. The model keeps \<open>m\<close> and \<open>e\<close>. Every operation is the exact operation on
  the rational values followed by rounding to the nearest double, ties going to the even
  mantissa (the default rounding mode). The exponent is not bounded: the model has no
  overflow to infinity, no subnormal numbers and no NaN, none of which the scores come
  near.
\<close>

datatype double = Double (mantissa: int) (exponent: int)

text \<open>The number a double stands for.\<close>

definition valof :: "double \<Rightarrow> real" where
  "valof x = of_int (mantissa x) * 2 powi exponent x"

text \<open>\<open>int.bit_length\<close>: the number of binary digits of a natural number.\<close>

fun bit_length :: "nat \<Rightarrow> nat" where
  "bit_length n = (if n = 0 then 0 else Suc (bit_length (n div 2)))"

declare bit_length.simps [simp del]

text \<open>The integer nearest to \<open>p / q\<close> for \<open>q > 0\<close>, a tie going to the even one.\<close>

definition round_half_even_ratio :: "int \<Rightarrow> int \<Rightarrow> int" where
  "round_half_even_ratio p q =
     (let f = p div q; r = p mod q
      in if 2 * r < q then f
         else if q < 2 * r then f + 1
         else if even f then f else f + 1)"

text \<open>
  The double nearest to \<open>p / q\<close> for \<open>q > 0\<close>: the ratio is scaled by the power of two \<open>2^k\<close>
  that brings it between \<open>2^52\<close> and \<open>2^53\<close> and rounded there to an integer, the mantissa.
  The bit lengths place the scaled ratio between \<open>2^52\<close> and \<open>2^54\<close>, and one comparison
  settles \<open>k\<close>.
\<close>

definition nearest_double :: "int \<Rightarrow> int \<Rightarrow> double" where
  "nearest_double p q =
     (if p = 0 then Double 0 0
      else
        (let k0 = 53 + int (bit_length (nat q)) - int (bit_length (nat \<bar>p\<bar>));
             k = (if 2 ^ 53 * q * 2 ^ nat (- k0) \<le> \<bar>p\<bar> * 2 ^ nat k0 then k0 - 1 else k0)
         in Double (round_half_even_ratio (p * 2 ^ nat k) (q * 2 ^ nat (- k))) (- k)))"

text \<open>A double as a ratio of integers with a positive denominator.\<close>

definition ratio :: "double \<Rightarrow> int \<times> int" where
  "ratio x = (if 0 \<le> exponent x then (mantissa x * 2 ^ nat (exponent x), 1)
              else (mantissa x, 2 ^ nat (- exponent x)))"

text \<open>\<open>x * y\<close> and \<open>x + y\<close> on floats.\<close>

definition float_mul :: "double \<Rightarrow> double \<Rightarrow> double" where
  "float_mul x y = (case (ratio x, ratio y) of ((a, b), (c, d)) \<Rightarrow> nearest_double (a * c) (b * d))"

definition float_add :: "double \<Rightarrow> double \<Rightarrow> double" where
  "float_add x y =
     (case (ratio x, ratio y) of ((a, b), (c, d)) \<Rightarrow> nearest_double (a * d + c * b) (b * d))"

text \<open>
  A decimal literal of the source, \<open>digits * 10^-places\<close> (\<open>0.30\<close> is \<open>float_literal 30 2\<close>):
  the parser returns the nearest double.
\<close>

definition float_literal :: "int \<Rightarrow> nat \<Rightarrow> double" where
  "float_literal digits places = nearest_double digits (10 ^ places)"

text \<open>
  The built-in \<open>round(x, ndigits)\<close> on a float, for \<open>ndigits \<ge> 0\<close>: CPython rounds the exact
  value of the double to \<open>ndigits\<close> decimals, half to even, and returns the double nearest
  to that decimal number.
\<close>

definition round_float :: "double \<Rightarrow> nat \<Rightarrow> double" where
  "round_float x ndigits =
     (case ratio x of (a, b) \<Rightarrow>
        nearest_double (round_half_even_ratio (a * 10 ^ ndigits) b) (10 ^ ndigits))"

text \<open>The largest relative error of one rounding to the nearest double, \<open>2^-53\<close>.\<close>

definition unit_roundoff :: real where
  "unit_roundoff = 1 / 2 ^ 53"

section \<open>config.py\<close>

record Thresholds =
  semantic_match :: real
  skill_transferable_min :: real
  education_partial_match_min :: real
  experience_match_score :: real

text \<open>
  The thresholds are compared in exact arithmetic; the weights enter the rounded overall
  score and are the doubles of their decimal literals.
\<close>

record Weights =
  required_skills :: double
  prefered_skills :: double
  experience :: double
  qualification :: double
  seniority :: double
  experience_years :: double
  experience_kind :: double

definition THRESHOLDS :: Thresholds where
  "THRESHOLDS = \<lparr> semantic_match = 0.80, skill_transferable_min = 0.50,
                   education_partial_match_min = 0.50, experience_match_score = 0.80 \<rparr>"

definition WEIGHTS :: Weights where
  "WEIGHTS = \<lparr> required_skills = float_literal 30 2, prefered_skills = float_literal 10 2,
                experience = float_literal 30 2, qualification = float_literal 15 2,
                seniority = float_literal 15 2,
                experience_years = float_literal 4 1, experience_kind = float_literal 6 1 \<rparr>"

section \<open>tools/experience\_evaluator.py: years score\<close>

text \<open>
  The \<open>note\<close> of the returned dictionary is one of three fixed messages or the
  formatted ratio; \<open>Ratio_note r\<close> stands for \<open>f"Candidate/required ratio={r:.2f}."\<close>.
\<close>

datatype years_note =
    Job_years_not_specified
  | Candidate_years_not_specified
  | Non_positive_required_years
  | Ratio_note real

record years_result =
  yr_candidate_years :: "real option"
  yr_required_years :: "real option"
  yr_score :: real
  yr_note :: years_note

definition score_experience_years :: "real option \<Rightarrow> real option \<Rightarrow> years_result" where
  "score_experience_years candidate_years required_years =
     (case required_years of
        None \<Rightarrow> \<lparr> yr_candidate_years = candidate_years, yr_required_years = required_years,
                  yr_score = 70.0, yr_note = Job_years_not_specified \<rparr>
      | Some r \<Rightarrow>
          (case candidate_years of
             None \<Rightarrow> \<lparr> yr_candidate_years = candidate_years, yr_required_years = required_years,
                       yr_score = 50.0, yr_note = Candidate_years_not_specified \<rparr>
           | Some c \<Rightarrow>
               if r \<le> 0
               then \<lparr> yr_candidate_years = candidate_years, yr_required_years = required_years,
                      yr_score = 70.0, yr_note = Non_positive_required_years \<rparr>
               else (let ratio = c / r; score = ratio * 100
                     in \<lparr> yr_candidate_years = candidate_years,
                          yr_required_years = required_years,
                          yr_score = score, yr_note = Ratio_note ratio \<rparr>)))"

section \<open>tools/overall\_scoring.py\<close>

text \<open>The sum associates to the left, as Python evaluates it.\<close>

record overall_result =
  overall_fit_score :: double

definition compute_overall_fit_score ::
  "double \<Rightarrow> double \<Rightarrow> double \<Rightarrow> double \<Rightarrow> double \<Rightarrow> overall_result" where
  "compute_overall_fit_score required_skill_score prefered_skill_score experience_score
       qualification_score seniority_score =
     (let overall =
            float_add
              (float_add
                 (float_add
                    (float_add (float_mul required_skill_score (required_skills WEIGHTS))
                               (float_mul prefered_skill_score (prefered_skills WEIGHTS)))
                    (float_mul experience_score (experience WEIGHTS)))
                 (float_mul qualification_score (qualification WEIGHTS)))
              (float_mul seniority_score (seniority WEIGHTS))
      in \<lparr> overall_fit_score = round_float overall 2 \<rparr>)"

section \<open>Text normalisation\<close>

text \<open>
  Strings are lists of characters and the model covers ASCII text: \<open>str.lower\<close> maps
  \<open>A\<close>..\<open>Z\<close> to \<open>a\<close>..\<open>z\<close>, and white space (\<open>str.strip\<close>, the regular expression
  \<open>\s\<close>) is tab, line feed, vertical tab, form feed, carriage return, the four
  separators 28..31 and the space.
\<close>

definition is_space :: "char \<Rightarrow> bool" where
  "is_space c = (let n = (of_char c :: nat) in (9 \<le> n \<and> n \<le> 13) \<or> (28 \<le> n \<and> n \<le> 32))"

definition lower_char :: "char \<Rightarrow> char" where
  "lower_char c = (let n = (of_char c :: nat) in if 65 \<le> n \<and> n \<le> 90 then char_of (n + 32) else c)"

definition upper_char :: "char \<Rightarrow> char" where
  "upper_char c = (let n = (of_char c :: nat) in if 97 \<le> n \<and> n \<le> 122 then char_of (n - 32) else c)"

definition lower :: "string \<Rightarrow> string" where
  "lower s = map lower_char s"

definition upper :: "string \<Rightarrow> string" where
  "upper s = map upper_char s"

definition strip :: "string \<Rightarrow> string" where
  "strip s = rev (dropWhile is_space (rev (dropWhile is_space s)))"

text \<open>\<open>re.sub(r"\s+", " ", s)\<close>: every maximal run of white space becomes one space.\<close>

function sub_spaces :: "string \<Rightarrow> string" where
  "sub_spaces [] = []"
| "sub_spaces (c # cs) =
     (if is_space c then CHR '' '' # sub_spaces (dropWhile is_space cs)
      else c # sub_spaces cs)"
  by pat_completeness auto
termination
  by (relation "measure length") (auto simp: length_dropWhile_le less_Suc_eq_le)

text \<open>
  \<open>_norm\<close> of \<open>tools/skill_evaluator.py\<close>; \<open>tools/education_evaluator.py\<close> and
  \<open>tools/experience_evaluator.py\<close> hold identical copies.
\<close>

definition norm_text :: "string \<Rightarrow> string" where
  "norm_text s = sub_spaces (strip (lower s))"

section \<open>The embedding provider\<close>

text \<open>
  \<open>embed_model\<close> is an external collaborator. The three calls the scorers make on it
  (\<open>encode\<close> of the normalised requirement, \<open>encode\<close> of the normalised candidate items,
  \<open>similarity\<close> of the two) are one parameter: given the two arguments it returns row 0
  of the similarity matrix, or raises.
\<close>

type_synonym provider = "string \<Rightarrow> string list \<Rightarrow> exn + real list"

text \<open>
  \<open>np.argmax\<close> on one row: the index of the first occurrence of the maximum; an empty
  row raises \<open>ValueError\<close>.
\<close>

fun argmax_scan :: "real list \<Rightarrow> nat \<Rightarrow> nat \<Rightarrow> real \<Rightarrow> nat" where
  "argmax_scan [] i best_i best_v = best_i"
| "argmax_scan (x # xs) i best_i best_v =
     (if best_v < x then argmax_scan xs (Suc i) i x
      else argmax_scan xs (Suc i) best_i best_v)"

definition np_argmax :: "real list \<Rightarrow> exn + nat" where
  "np_argmax sims =
     (case sims of
        [] \<Rightarrow> Inl (ValueError ''attempt to get argmax of an empty sequence'')
      | x # xs \<Rightarrow> Inr (argmax_scan xs 1 0 x))"

section \<open>tools/skill\_evaluator.py\<close>

record skill_result =
  sr_job_skill :: string
  sr_best_candidate_skill :: string
  sr_classification :: string
  sr_similarity :: real

definition evaluate_single_skill :: "provider \<Rightarrow> string \<Rightarrow> string list \<Rightarrow> exn + skill_result" where
  "evaluate_single_skill embed_model job_skill candidate_skills =
     (let job_norm = norm_text job_skill;
          cand_norm = map norm_text candidate_skills
      in if job_norm \<in> set cand_norm
         then Inr \<lparr> sr_job_skill = job_skill, sr_best_candidate_skill = job_skill,
                    sr_classification = ''match'', sr_similarity = 1.0 \<rparr>
         else
           (case embed_model job_norm cand_norm of
              Inl e \<Rightarrow> Inl e
            | Inr sims \<Rightarrow>
                (case np_argmax sims of
                   Inl e \<Rightarrow> Inl e
                 | Inr max_sim_idx \<Rightarrow>
                     (let max_sim_val = sims ! max_sim_idx
                      in case py_index candidate_skills max_sim_idx of
                           Inl e \<Rightarrow> Inl e
                         | Inr best \<Rightarrow>
                             if max_sim_val \<ge> semantic_match THRESHOLDS
                             then Inr \<lparr> sr_job_skill = job_skill, sr_best_candidate_skill = best,
                                        sr_classification = ''match'',
                                        sr_similarity = max_sim_val \<rparr>
                             else if max_sim_val > skill_transferable_min THRESHOLDS
                                     \<and> max_sim_val < semantic_match THRESHOLDS
                             then Inr \<lparr> sr_job_skill = job_skill, sr_best_candidate_skill = best,
                                        sr_classification = ''transferable'',
                                        sr_similarity = max_sim_val \<rparr>
                             else Inr \<lparr> sr_job_skill = job_skill, sr_best_candidate_skill = best,
                                        sr_classification = ''missing'',
                                        sr_similarity = 0 \<rparr>))))"

section \<open>tools/education\_evaluator.py\<close>

text \<open>
  The key of the first entry of the returned dictionary is built from the indicator
  argument (\<open>f"{education_or_qualification}_required"\<close>); it is the field \<open>qr_required_key\<close>.
\<close>

record qualification_result =
  qr_required_key :: string
  qr_required :: "string option"
  qr_best_candidate_match :: "string option"
  qr_score :: real
  qr_note :: string

definition score_education_and_qualification ::
  "provider \<Rightarrow> string option \<Rightarrow> string list \<Rightarrow> string \<Rightarrow> exn + qualification_result" where
  "score_education_and_qualification embed_model ad_required_qualification
       candidate_qualification education_or_qualification =
     (let key = education_or_qualification @ ''_required''
      in if ad_required_qualification = None \<or> ad_required_qualification = Some []
         then (case py_index candidate_qualification 0 of
                 Inl e \<Rightarrow> Inl e
               | Inr first \<Rightarrow>
                   Inr \<lparr> qr_required_key = key, qr_required = None,
                         qr_best_candidate_match = Some first, qr_score = 70.0,
                         qr_note = ''Job does not specify '' @ education_or_qualification
                                     @ '' requirement.'' \<rparr>)
         else if candidate_qualification = []
         then Inr \<lparr> qr_required_key = key, qr_required = ad_required_qualification,
                    qr_best_candidate_match = None, qr_score = 50.0,
                    qr_note = ''Candidate '' @ education_or_qualification @ '' not specified.'' \<rparr>
         else
           (let ad_norm = norm_text (the ad_required_qualification);
                cand_norm = map norm_text candidate_qualification
            in if ad_norm \<in> set cand_norm
               then Inr \<lparr> qr_required_key = key, qr_required = ad_required_qualification,
                          qr_best_candidate_match = ad_required_qualification, qr_score = 100,
                          qr_note = ''Job does not specify '' @ education_or_qualification
                                      @ '' requirement.'' \<rparr>
               else
                 (case embed_model ad_norm cand_norm of
                    Inl e \<Rightarrow> Inl e
                  | Inr sims \<Rightarrow>
                      (case np_argmax sims of
                         Inl e \<Rightarrow> Inl e
                       | Inr max_sim_idx \<Rightarrow>
                           (let max_sim_val = sims ! max_sim_idx
                            in case py_index candidate_qualification max_sim_idx of
                                 Inl e \<Rightarrow> Inl e
                               | Inr best \<Rightarrow>
                                   if max_sim_val \<ge> semantic_match THRESHOLDS
                                   then Inr \<lparr> qr_required_key = key,
                                              qr_required = ad_required_qualification,
                                              qr_best_candidate_match = Some best, qr_score = 100,
                                              qr_note = ''Candidate meets requirement.'' \<rparr>
                                   else if max_sim_val > education_partial_match_min THRESHOLDS
                                           \<and> max_sim_val < semantic_match THRESHOLDS
                                   then Inr \<lparr> qr_required_key = key,
                                              qr_required = ad_required_qualification,
                                              qr_best_candidate_match = Some best, qr_score = 70,
                                              qr_note = ''Candidate partially meets requirement.'' \<rparr>
                                   else Inr \<lparr> qr_required_key = key,
                                              qr_required = ad_required_qualification,
                                              qr_best_candidate_match = Some best, qr_score = 0,
                                              qr_note = ''Candidate does not meet requirement.'' \<rparr>)))))"

section \<open>tools/experience\_evaluator.py: kind score\<close>

text \<open>
  The first key of the returned dictionary is \<open>"ad_kind"\<close> in the three early returns and
  \<open>"ad_required_kind"\<close> in the last one; it is the field \<open>kr_ad_key\<close>.
\<close>

record kind_result =
  kr_ad_key :: string
  kr_ad_kind :: "string option"
  kr_candidate_matching_text :: "string option"
  kr_score :: real
  kr_similarity :: real

text \<open>The statements inside the \<open>try\<close> block.\<close>

definition score_experience_kind_try :: "provider \<Rightarrow> string option \<Rightarrow> string list \<Rightarrow> exn + kind_result" where
  "score_experience_kind_try embed_model required_kind candidate_experience_texts =
     (if required_kind = None \<or> required_kind = Some [] \<or> strip (the required_kind) = []
      then (case py_index candidate_experience_texts 0 of
              Inl e \<Rightarrow> Inl e
            | Inr first \<Rightarrow>
                Inr \<lparr> kr_ad_key = ''ad_kind'', kr_ad_kind = None,
                      kr_candidate_matching_text = Some first, kr_score = 70.0,
                      kr_similarity = 0.0 \<rparr>)
      else if candidate_experience_texts = []
      then Inr \<lparr> kr_ad_key = ''ad_kind'', kr_ad_kind = required_kind,
                 kr_candidate_matching_text = None, kr_score = 30.0, kr_similarity = 0.0 \<rparr>
      else if the required_kind \<in> set candidate_experience_texts
      then Inr \<lparr> kr_ad_key = ''ad_kind'', kr_ad_kind = required_kind,
                 kr_candidate_matching_text = required_kind, kr_score = 100.0,
                 kr_similarity = 1.0 \<rparr>
      else
        (let req = norm_text (the required_kind);
             cands_norm = map norm_text candidate_experience_texts
         in case embed_model req cands_norm of
              Inl e \<Rightarrow> Inl e
            | Inr sims \<Rightarrow>
                (case np_argmax sims of
                   Inl e \<Rightarrow> Inl e
                 | Inr max_sim_idx \<Rightarrow>
                     (let max_sim_val = sims ! max_sim_idx
                      in case py_index candidate_experience_texts max_sim_idx of
                           Inl e \<Rightarrow> Inl e
                         | Inr best_text \<Rightarrow>
                             (let score = (if max_sim_val \<ge> experience_match_score THRESHOLDS
                                           then 100.0 else max_sim_val * 100)
                              in Inr \<lparr> kr_ad_key = ''ad_required_kind'',
                                       kr_ad_kind = required_kind,
                                       kr_candidate_matching_text = Some best_text,
                                       kr_score = score, kr_similarity = max_sim_val \<rparr>)))))"

text \<open>
  The whole function: the handler \<open>except Exception as e: print("experience", e)\<close> ends
  without a \<open>return\<close>, so a caught exception makes the function return \<open>None\<close>.
\<close>

definition score_experience_kind :: "provider \<Rightarrow> string option \<Rightarrow> string list \<Rightarrow> exn + kind_result option" where
  "score_experience_kind embed_model required_kind candidate_experience_texts =
     (case score_experience_kind_try embed_model required_kind candidate_experience_texts of
        Inl e \<Rightarrow> Inr None
      | Inr result \<Rightarrow> Inr (Some result))"

section \<open>models.py: the PII records\<close>

text \<open>
  Character offsets come from \<open>match.start()\<close>, \<open>match.end()\<close> and the token classifier,
  so they are natural numbers. A reading of the clock (\<open>datetime.now()\<close>) is the instant
  together with its rendering by \<open>strftime('%Y%m%d_%H%M%S')\<close>.
\<close>

record datetime =
  dt_instant :: nat
  dt_stamp :: string

record PIIEntity =
  entity_type :: string
  pii_text :: string
  start_char :: nat
  end_char :: nat
  confidence :: real
  replacement :: string

record CandidateDetail =
  cd_id :: string
  cd_name :: string
  cd_email :: string
  cd_phone :: string
  cd_url :: "string list"
  cd_location :: string

record RedacteddResume =
  rr_id :: string
  original_text :: string
  redacted_text :: string
  pii_entities :: "PIIEntity list"
  processed_at :: datetime

text \<open>\<open>CandidateDetail(id=...)\<close>: every other field takes its default.\<close>

definition CandidateDetail_init :: "string \<Rightarrow> CandidateDetail" where
  "CandidateDetail_init ident =
     \<lparr> cd_id = ident, cd_name = [], cd_email = [], cd_phone = [], cd_url = [],
       cd_location = [] \<rparr>"

section \<open>pii\_redactor.py\<close>

text \<open>
  The three compiled patterns are constants of the detector. The regular-expression
  engine is external: \<open>pattern.finditer(text)\<close> is a parameter that gives, in order, the
  \<open>(start, end)\<close> of every match.
\<close>

datatype pattern = email_pattern | phone_pattern | url_pattern

type_synonym finditer = "pattern \<Rightarrow> string \<Rightarrow> (nat \<times> nat) list"

text \<open>
  One span of the token classifier's output (\<open>self.ner(text)\<close>, an external model): the
  dictionary with keys \<open>entity_group\<close>, \<open>word\<close>, \<open>score\<close>, \<open>start\<close>, \<open>end\<close>. Its score is a
  probability, so the range check of \<open>PIIEntity.confidence\<close> (0 to 100) cannot fail on it.
\<close>

record ner_span =
  entity_group :: string
  word :: string
  score :: real
  span_start :: nat
  span_end :: nat

type_synonym ner = "string \<Rightarrow> exn + ner_span list"

definition normalise_label :: "string \<Rightarrow> string" where
  "normalise_label label =
     (let mapping = [(''PERSON'', ''NAME''), (''FIRSTNAME'', ''NAME''), (''LASTNAME'', ''NAME''),
                     (''NAME'', ''NAME''), (''EMAIL'', ''EMAIL''), (''PHONE_NUM'', ''PHONE''),
                     (''URL'', ''URL''), (''ADDRESS'', ''LOCATION''), (''LOCATION'', ''LOCATION''),
                     (''LOC'', ''LOCATION''), (''GPE'', ''LOCATION'')]
      in case map_of mapping (upper label) of
           Some t \<Rightarrow> t
         | None \<Rightarrow> upper label)"

text \<open>\<open>text[start:end]\<close> for offsets that are not negative.\<close>

definition slice :: "string \<Rightarrow> nat \<Rightarrow> nat \<Rightarrow> string" where
  "slice s i j = take (j - i) (drop i s)"

definition detect_with_regex :: "finditer \<Rightarrow> string \<Rightarrow> PIIEntity list" where
  "detect_with_regex finditer text =
     (let patterns = [(''EMAIL'', email_pattern), (''PHONE'', phone_pattern),
                      (''URL'', url_pattern)]
      in concat
           (map (\<lambda>(etype, pat).
                   map (\<lambda>(s, e).
                          \<lparr> entity_type = etype, pii_text = slice text s e,
                            start_char = s, end_char = e,
                            confidence = 1.0,
                            replacement = ''['' @ etype @ '']'' \<rparr>)
                       (finditer pat text))
                patterns))"

text \<open>
  The merge buffer \<open>current_entity\<close> is a dictionary with the six keys of a \<open>PIIEntity\<close>
  and the sub-label \<open>entity_group\<close> of the last token merged into it.
\<close>

record current_entity =
  cur_entity_type :: string
  cur_entity_group :: string
  cur_text :: string
  cur_start_char :: nat
  cur_end_char :: nat
  cur_confidence :: real
  cur_replacement :: string

text \<open>\<open>PIIEntity(**current_entity)\<close>: the key \<open>entity_group\<close> is no field and is ignored.\<close>

definition PIIEntity_of :: "current_entity \<Rightarrow> PIIEntity" where
  "PIIEntity_of c =
     \<lparr> entity_type = cur_entity_type c, pii_text = cur_text c,
       start_char = cur_start_char c, end_char = cur_end_char c,
       confidence = cur_confidence c, replacement = cur_replacement c \<rparr>"

text \<open>The variables of the loop of \<open>detect_pii\<close> over the classifier's spans.\<close>

record detect_state =
  ds_pii_entities :: "PIIEntity list"
  ds_occupied_spans :: "(nat \<times> nat) list"
  ds_current_entity :: "current_entity option"

definition overlaps_occupied :: "nat \<Rightarrow> nat \<Rightarrow> (nat \<times> nat) list \<Rightarrow> bool" where
  "overlaps_occupied start end' occupied =
     list_ex (\<lambda>(s, e). \<not> (end' \<le> s \<or> start \<ge> e)) occupied"

definition flush :: "detect_state \<Rightarrow> detect_state" where
  "flush st =
     (case ds_current_entity st of
        None \<Rightarrow> st
      | Some c \<Rightarrow>
          st \<lparr> ds_pii_entities := ds_pii_entities st @ [PIIEntity_of c],
               ds_occupied_spans := ds_occupied_spans st @ [(cur_start_char c, cur_end_char c)] \<rparr>)"

text \<open>One iteration of the loop body, for the span \<open>ent\<close>.\<close>

definition ner_step :: "ner_span \<Rightarrow> detect_state \<Rightarrow> detect_state" where
  "ner_step ent st =
     (let normalised = normalise_label (entity_group ent)
      in if normalised \<notin> {''NAME'', ''LOCATION''} then st
         else
           (let start = span_start ent; end' = span_end ent
            in if overlaps_occupied start end' (ds_occupied_spans st) then st
               else if (case ds_current_entity st of
                          None \<Rightarrow> True
                        | Some c \<Rightarrow> cur_entity_type c \<noteq> normalised
                                     \<or> start > cur_end_char c + 1)
               then (flush st)
                      \<lparr> ds_current_entity :=
                          Some \<lparr> cur_entity_type = normalised,
                                 cur_entity_group = entity_group ent,
                                 cur_text = word ent,
                                 cur_start_char = start, cur_end_char = end',
                                 cur_confidence = score ent,
                                 cur_replacement = ''['' @ normalised @ '']'' \<rparr> \<rparr>
               else
                 (let c = the (ds_current_entity st);
                      t = (if entity_group ent = cur_entity_group c then word ent
                           else '' '' @ word ent)
                  in st \<lparr> ds_current_entity :=
                          Some (c \<lparr> cur_text := cur_text c @ t,
                                    cur_entity_group := entity_group ent,
                                    cur_end_char := end',
                                    cur_confidence := max (cur_confidence c) (score ent) \<rparr>) \<rparr>)))"

definition detect_pii :: "finditer \<Rightarrow> ner \<Rightarrow> string \<Rightarrow> exn + PIIEntity list" where
  "detect_pii finditer ner_model text =
     (let regex_entities = detect_with_regex finditer text;
          occupied_spans = map (\<lambda>ent. (start_char ent, end_char ent)) regex_entities
      in case ner_model text of
           Inl e \<Rightarrow> Inl e
         | Inr entities \<Rightarrow>
             Inr (ds_pii_entities
                    (flush (fold ner_step entities
                              \<lparr> ds_pii_entities = regex_entities,
                                ds_occupied_spans = occupied_spans,
                                ds_current_entity = None \<rparr>))))"

text \<open>
  The redaction loop of \<open>process_resume\<close>: \<open>sorted(..., key=start_char, reverse=True)\<close> is
  a stable sort into descending order of \<open>start_char\<close>, and each entity is spliced into
  the text redacted so far.
\<close>

definition splice :: "PIIEntity \<Rightarrow> string \<Rightarrow> string" where
  "splice entity redacted =
     take (start_char entity) redacted @ replacement entity @ drop (end_char entity) redacted"

definition redact_text :: "PIIEntity list \<Rightarrow> string \<Rightarrow> string" where
  "redact_text entities text =
     fold splice (sort_key (\<lambda>e. - int (start_char e)) entities) text"

text \<open>The loop that fills the contact card, one entity at a time.\<close>

definition add_detail :: "PIIEntity \<Rightarrow> CandidateDetail \<Rightarrow> CandidateDetail" where
  "add_detail entity detail =
     (if entity_type entity = ''NAME'' \<and> cd_name detail = []
      then detail \<lparr> cd_name := pii_text entity \<rparr>
      else if entity_type entity = ''EMAIL'' \<and> cd_email detail = []
      then detail \<lparr> cd_email := pii_text entity \<rparr>
      else if entity_type entity = ''PHONE'' \<and> cd_phone detail = []
      then detail \<lparr> cd_phone := pii_text entity \<rparr>
      else if entity_type entity = ''LOCATION'' \<and> cd_location detail = []
      then detail \<lparr> cd_location := pii_text entity \<rparr>
      else if entity_type entity = ''URL'' \<and> cd_url detail = []
      then detail \<lparr> cd_url := [pii_text entity] \<rparr>
      else if entity_type entity = ''URL''
      then detail \<lparr> cd_url := cd_url detail @ [pii_text entity] \<rparr>
      else detail)"

definition process_resume ::
  "finditer \<Rightarrow> ner \<Rightarrow> datetime \<Rightarrow> string \<Rightarrow> string \<Rightarrow> exn + (RedacteddResume \<times> CandidateDetail)" where
  "process_resume finditer ner_model now text candidate_id =
     (case detect_pii finditer ner_model text of
        Inl e \<Rightarrow> Inl e
      | Inr entities \<Rightarrow>
          (let redacted = redact_text entities text;
               resume_id = (if candidate_id = [] then ''cand_'' @ dt_stamp now else candidate_id);
               processed_resume =
                 \<lparr> rr_id = resume_id, original_text = text, redacted_text = redacted,
                   pii_entities = entities, processed_at = now \<rparr>;
               detail = fold add_detail entities (CandidateDetail_init resume_id)
           in Inr (processed_resume, detail)))"

section \<open>Substitution of spans, as the specification words it\<close>

text \<open>
  The specification describes the redacted text as the original text with each entity's
  replacement string substituted for its span \<open>[start_char, end_char)\<close>. Read from left to
  right over the entities in ascending order of \<open>start_char\<close>: the text before the span
  is copied, the replacement is written, and the reading resumes at the span's end.
\<close>

fun substitute_from :: "nat \<Rightarrow> string \<Rightarrow> PIIEntity list \<Rightarrow> string" where
  "substitute_from pos text [] = drop pos text"
| "substitute_from pos text (e # es) =
     slice text pos (start_char e) @ replacement e @ substitute_from (end_char e) text es"

definition substitute_spans :: "string \<Rightarrow> PIIEntity list \<Rightarrow> string" where
  "substitute_spans text entities = substitute_from 0 text (sort_key start_char entities)"

text \<open>
  Two entities overlap when neither ends before the other starts (the test \<open>detect_pii\<close>
  applies to occupied spans); a list is non-overlapping when no two of its members do.
  An entity is well formed in a text when its span is not empty and lies inside the text.
\<close>

definition overlaps :: "PIIEntity \<Rightarrow> PIIEntity \<Rightarrow> bool" where
  "overlaps a b = (\<not> (end_char a \<le> start_char b \<or> start_char a \<ge> end_char b))"

fun non_overlapping :: "PIIEntity list \<Rightarrow> bool" where
  "non_overlapping [] = True"
| "non_overlapping (e # es) = (list_all (\<lambda>e'. \<not> overlaps e e') es \<and> non_overlapping es)"

definition well_formed :: "string \<Rightarrow> PIIEntity \<Rightarrow> bool" where
  "well_formed text e = (start_char e < end_char e \<and> end_char e \<le> length text)"

section \<open>A sample resume line\<close>

text \<open>
  The text \<open>Contact: jane@x.com, +1 415 555 0100\<close> and the matches the three patterns
  have in it: the e-mail pattern matches \<open>jane@x.com\<close> at 9..19, the phone pattern matches
  \<open>1 415 555 0100\<close> at 22..36 (there is no word boundary before the \<open>+\<close>, so the match
  starts at the digit), and the URL pattern matches nothing.
\<close>

definition scenario_text :: string where
  "scenario_text = ''Contact: jane@x.com, +1 415 555 0100''"

definition scenario_finditer :: finditer where
  "scenario_finditer pat text =
     (case pat of
        email_pattern \<Rightarrow> [(9, 19)]
      | phone_pattern \<Rightarrow> [(22, 36)]
      | url_pattern \<Rightarrow> [])"

definition scenario_email :: PIIEntity where
  "scenario_email =
     \<lparr> entity_type = ''EMAIL'', pii_text = ''jane@x.com'', start_char = 9, end_char = 19,
       confidence = 1, replacement = ''[EMAIL]'' \<rparr>"

definition scenario_phone :: PIIEntity where
  "scenario_phone =
     \<lparr> entity_type = ''PHONE'', pii_text = ''1 415 555 0100'', start_char = 22, end_char = 36,
       confidence = 1, replacement = ''[PHONE]'' \<rparr>"

text \<open>
  The text \<open>Jane Roe: jane@x.com, +1 415 555 0100\<close>: the e-mail pattern matches at 10..20,
  the phone pattern at 23..37, the URL pattern nowhere, and the classifier reports the
  first name at 0..4 and the last name at 5..8.
\<close>

definition signed_text :: string where
  "signed_text = ''Jane Roe: jane@x.com, +1 415 555 0100''"

definition signed_finditer :: finditer where
  "signed_finditer pat text =
     (case pat of
        email_pattern \<Rightarrow> [(10, 20)]
      | phone_pattern \<Rightarrow> [(23, 37)]
      | url_pattern \<Rightarrow> [])"

definition signed_ner :: ner where
  "signed_ner text =
     Inr [\<lparr> entity_group = ''FIRSTNAME'', word = ''Jane'', score = 0.98,
             span_start = 0, span_end = 4 \<rparr>,
          \<lparr> entity_group = ''LASTNAME'', word = ''Roe'', score = 0.97,
             span_start = 5, span_end = 8 \<rparr>]"

definition signed_entities :: "PIIEntity list" where
  "signed_entities =
     [\<lparr> entity_type = ''EMAIL'', pii_text = ''jane@x.com'', start_char = 10, end_char = 20,
         confidence = 1, replacement = ''[EMAIL]'' \<rparr>,
      \<lparr> entity_type = ''PHONE'', pii_text = ''1 415 555 0100'', start_char = 23, end_char = 37,
         confidence = 1, replacement = ''[PHONE]'' \<rparr>,
      \<lparr> entity_type = ''NAME'', pii_text = ''Jane Roe'', start_char = 0, end_char = 8,
         confidence = 0.98, replacement = ''[NAME]'' \<rparr>]"

text \<open>
  The text \<open>Web: x.io/u/5551234567 ok\<close>: the URL pattern matches \<open>x.io/u/5551234567\<close> at
  5..22 and the phone pattern matches the digits inside it, at 12..22; and a classifier
  that reports no span.
\<close>

definition overlap_text :: string where
  "overlap_text = ''Web: x.io/u/5551234567 ok''"

definition no_spans :: ner where
  "no_spans text = Inr []"

definition overlap_finditer :: finditer where
  "overlap_finditer pat text =
     (case pat of
        email_pattern \<Rightarrow> []
      | phone_pattern \<Rightarrow> [(12, 22)]
      | url_pattern \<Rightarrow> [(5, 22)])"


section \<open>Runs of classifier spans\<close>

text \<open>
  A list of spans continues a buffer that ends at \<open>e\<close> when each span starts at most one
  character after the end of the one before it (the first one, after \<open>e\<close>).
\<close>

fun contiguous :: "nat \<Rightarrow> ner_span list \<Rightarrow> bool" where
  "contiguous e [] = True"
| "contiguous e (t # ts) = (span_start t \<le> e + 1 \<and> contiguous (span_end t) ts)"

text \<open>
  The text that a list of spans adds to a buffer whose last token has the sub-label \<open>g\<close>,
  as the specification words it: the word of each span, with no separator when its
  sub-label equals the sub-label of the token before it and after one space otherwise.
\<close>

fun join_words :: "string \<Rightarrow> ner_span list \<Rightarrow> string" where
  "join_words g [] = []"
| "join_words g (t # ts) =
     (if entity_group t = g then word t else '' '' @ word t) @ join_words (entity_group t) ts"


text \<open>
  Sample spans: a first name at 0..4, a last name right after one space (5..10), the
  same last name one character further (6..11), and the buffer holding the first name.
\<close>

definition first_name_span :: ner_span where
  "first_name_span =
     \<lparr> entity_group = ''FIRSTNAME'', word = ''John'', score = 0.9, span_start = 0, span_end = 4 \<rparr>"

definition last_name_span :: ner_span where
  "last_name_span =
     \<lparr> entity_group = ''LASTNAME'', word = ''Smith'', score = 0.95, span_start = 5, span_end = 10 \<rparr>"

definition far_name_span :: ner_span where
  "far_name_span =
     \<lparr> entity_group = ''LASTNAME'', word = ''Smith'', score = 0.95, span_start = 6, span_end = 11 \<rparr>"

definition john_buffer :: current_entity where
  "john_buffer =
     \<lparr> cur_entity_type = ''NAME'', cur_entity_group = ''FIRSTNAME'', cur_text = ''John'',
       cur_start_char = 0, cur_end_char = 4, cur_confidence = 0.9,
       cur_replacement = ''[NAME]'' \<rparr>"

definition john_state :: "(nat \<times> nat) list \<Rightarrow> detect_state" where
  "john_state occupied =
     \<lparr> ds_pii_entities = [], ds_occupied_spans = occupied,
       ds_current_entity = Some john_buffer \<rparr>"


section \<open>models.py: parsed documents and the report\<close>

text \<open>
  The parsed documents and the fit analysis are produced by language-model agents. Of
  their fields the records keep the identifiers, which the repository's code assigns,
  and a few of the extracted ones; the other extracted fields are not read by the code
  modelled here.
\<close>

record ParsedResume =
  pr_candidate_id :: string
  pr_skills :: "string list"
  pr_qualifications :: "string list"
  pr_total_experience_years :: "real option"

record ParsedJob =
  pj_job_id :: string
  pj_required_skills :: "string list"
  pj_required_experience_years :: "real option"
  pj_education_requirement :: "string option"

record FitAnalysis =
  fa_candidate_id :: string
  fa_job_id :: string
  fa_overall_fit_score :: real
  fa_recommendation :: string

record SummaryGenerated =
  sg_candidate_id :: string
  sg_job_id :: string
  sg_summary :: string

record AnalysisReport =
  ar_candidate_details :: CandidateDetail
  ar_job_id :: string
  ar_summary :: SummaryGenerated
  ar_fit_analysis :: FitAnalysis
  ar_resume :: ParsedResume
  ar_job :: ParsedJob
  ar_generated_at :: datetime

text \<open>
  The value the variable \<open>candidate_details\<close> of \<open>analyse\<close> holds when the report is built:
  an instance of \<open>CandidateDetail\<close>, or the class \<open>CandidateDetail\<close> itself.
\<close>

datatype candidate_details_value =
    CandidateDetail_instance CandidateDetail
  | CandidateDetail_class

text \<open>
  \<open>AnalysisReport(candidate_details=..., ...)\<close>: the model validates its fields. The field
  \<open>candidate_details\<close> accepts an instance of \<open>CandidateDetail\<close> (or a dictionary); the class
  object is neither, so validation raises. The other arguments are instances of their
  field types wherever \<open>analyse\<close> builds a report.
\<close>

definition AnalysisReport_init ::
  "candidate_details_value \<Rightarrow> string \<Rightarrow> SummaryGenerated \<Rightarrow> FitAnalysis \<Rightarrow> ParsedResume
     \<Rightarrow> ParsedJob \<Rightarrow> datetime \<Rightarrow> exn + AnalysisReport" where
  "AnalysisReport_init candidate_details job_id summary fit_analysis resume job generated_at =
     (case candidate_details of
        CandidateDetail_class \<Rightarrow>
          Inl (ValidationError
                 ''candidate_details: Input should be a valid dictionary or instance of CandidateDetail'')
      | CandidateDetail_instance d \<Rightarrow>
          Inr \<lparr> ar_candidate_details = d, ar_job_id = job_id, ar_summary = summary,
                ar_fit_analysis = fit_analysis, ar_resume = resume, ar_job = job,
                ar_generated_at = generated_at \<rparr>)"

section \<open>The agents\<close>

text \<open>\<open>str(e)\<close> of an exception, as the f-strings of the orchestrator format it.\<close>

fun exn_str :: "exn \<Rightarrow> string" where
  "exn_str IndexError = ''list index out of range''"
| "exn_str (ValueError m) = m"
| "exn_str TypeError = '''NoneType' object is not callable''"
| "exn_str (ValidationError m) = m"
| "exn_str (Exception m) = m"
| "exn_str (Raised m) = m"

text \<open>
  The context sent to the summary agent is an f-string over the parsed resume, the
  parsed job and the fit analysis, with the recruiter's feedback in a revision; it is
  kept structured. A message thread is the list of the messages of a conversation.
\<close>

datatype summary_context =
    Initial_context ParsedResume ParsedJob FitAnalysis
  | Revision_context ParsedResume ParsedJob FitAnalysis string

type_synonym message_thread = "string list"

text \<open>
  The external collaborators of the pipeline: the document loader, the regular-expression
  engine, the token classifier, the clock, and the four language-model agents
  (\<open>agent.run(...)\<close>, giving the validated output and, for the summary agent, all messages
  of the run). Each of them may raise.
\<close>

record collaborators =
  load_document :: "string \<Rightarrow> exn + string"
  regex_finditer :: finditer
  ner_pipeline :: ner
  datetime_now :: datetime
  resume_agent :: "string \<Rightarrow> exn + ParsedResume"
  job_agent :: "string \<Rightarrow> exn + ParsedJob"
  matcher_agent :: "ParsedResume \<Rightarrow> ParsedJob \<Rightarrow> exn + FitAnalysis"
  summary_agent :: "summary_context \<Rightarrow> message_thread option
                      \<Rightarrow> exn + (SummaryGenerated \<times> message_thread)"

text \<open>\<open>agents/resume_agent.py\<close>: the agent's output with the identifier overwritten.\<close>

definition parse_resume :: "collaborators \<Rightarrow> string \<Rightarrow> string \<Rightarrow> exn + ParsedResume" where
  "parse_resume env resume_text candidate_id =
     (case resume_agent env (''Parse this resume for candidate '' @ candidate_id @ '':''
                               @ [CHR 0x0A, CHR 0x0A] @ resume_text) of
        Inl e \<Rightarrow> Inl e
      | Inr result \<Rightarrow> Inr (result \<lparr> pr_candidate_id := candidate_id \<rparr>))"

text \<open>\<open>agents/job_agent.py\<close>.\<close>

definition parse_job :: "collaborators \<Rightarrow> string \<Rightarrow> string \<Rightarrow> exn + ParsedJob" where
  "parse_job env job_ad_text job_id =
     (case job_agent env (''Parse this job description with ID '' @ job_id @ '':''
                            @ [CHR 0x0A, CHR 0x0A] @ job_ad_text) of
        Inl e \<Rightarrow> Inl e
      | Inr result \<Rightarrow> Inr (result \<lparr> pj_job_id := job_id \<rparr>))"

text \<open>\<open>agents/matcher_agent.py\<close>.\<close>

definition match_candidate_to_job ::
  "collaborators \<Rightarrow> ParsedResume \<Rightarrow> ParsedJob \<Rightarrow> exn + FitAnalysis" where
  "match_candidate_to_job env resume job =
     (case matcher_agent env resume job of
        Inl e \<Rightarrow> Inl e
      | Inr result \<Rightarrow>
          Inr (result \<lparr> fa_candidate_id := pr_candidate_id resume,
                        fa_job_id := pj_job_id job \<rparr>))"

text \<open>
  \<open>agents/summary_agent.py\<close>: without feedback the agent runs on the initial context and
  no history; with feedback it runs on the revision context and the given history.
\<close>

definition generate_summary ::
  "collaborators \<Rightarrow> FitAnalysis \<Rightarrow> ParsedResume \<Rightarrow> ParsedJob \<Rightarrow> string option
     \<Rightarrow> message_thread option \<Rightarrow> exn + (SummaryGenerated \<times> message_thread)" where
  "generate_summary env fit_analysis resume job recruiter_feedback message_history =
     (case (case recruiter_feedback of
              None \<Rightarrow> summary_agent env (Initial_context resume job fit_analysis) None
            | Some feedback \<Rightarrow>
                summary_agent env (Revision_context resume job fit_analysis feedback)
                  message_history) of
        Inl e \<Rightarrow> Inl e
      | Inr (result_output, result_message_thread) \<Rightarrow>
          Inr (result_output \<lparr> sg_candidate_id := pr_candidate_id resume,
                               sg_job_id := pj_job_id job \<rparr>,
               result_message_thread))"

section \<open>orchestrator.py\<close>

record MatchingOrchestrator =
  message_thread :: "message_thread option"

text \<open>
  The progress callback is a parameter of \<open>analyse\<close> with default \<open>None\<close>; calling \<open>None\<close>
  raises \<open>TypeError\<close>, and a callback may raise itself (\<open>Some e\<close>) or return (\<open>None\<close>).
\<close>

type_synonym progress_callback = "(string \<Rightarrow> exn option) option"

definition call_callback :: "progress_callback \<Rightarrow> string \<Rightarrow> exn option" where
  "call_callback progress_callback msg =
     (case progress_callback of
        None \<Rightarrow> Some TypeError
      | Some f \<Rightarrow> f msg)"

text \<open>
  The shape shared by the guarded steps of \<open>analyse\<close>: the body and then the progress
  report run inside \<open>try\<close>; the handler reports the failure (an exception of the
  callback escapes from there) and raises the wrapping exception.
\<close>

definition guarded_step ::
  "progress_callback \<Rightarrow> (exn + 'a) \<Rightarrow> string \<Rightarrow> string \<Rightarrow> (exn \<Rightarrow> exn) \<Rightarrow> exn + 'a" where
  "guarded_step progress_callback body ok_msg fail_msg wrap =
     (let handler = (\<lambda>e. case call_callback progress_callback fail_msg of
                            Some e' \<Rightarrow> Inl e'
                          | None \<Rightarrow> Inl (wrap e))
      in case body of
           Inl e \<Rightarrow> handler e
         | Inr v \<Rightarrow>
             (case call_callback progress_callback ok_msg of
                Some e \<Rightarrow> handler e
              | None \<Rightarrow> Inr v))"

text \<open>
  Step 2 of \<open>analyse\<close>. When redaction (or the progress report after it) raises, the
  handler reports the failure, builds a \<open>RedacteddResume\<close> that holds the original text
  and no entities, and assigns the class \<open>CandidateDetail\<close> to \<open>candidate_details\<close> (the
  source reads \<open>candidate_details=CandidateDetail\<close>, without a call).
\<close>

definition redact_step ::
  "collaborators \<Rightarrow> progress_callback \<Rightarrow> string \<Rightarrow> string
     \<Rightarrow> exn + (RedacteddResume \<times> candidate_details_value)" where
  "redact_step env progress_callback resume_text candidate_id =
     (let handler =
            (case call_callback progress_callback ''**Status:** Resume Redaction failed'' of
               Some e' \<Rightarrow> Inl e'
             | None \<Rightarrow>
                 Inr (\<lparr> rr_id = candidate_id, original_text = resume_text,
                        redacted_text = resume_text, pii_entities = [],
                        processed_at = datetime_now env \<rparr>,
                      CandidateDetail_class))
      in case process_resume (regex_finditer env) (ner_pipeline env) (datetime_now env)
                resume_text candidate_id of
           Inl e \<Rightarrow> handler
         | Inr (processed_resume, candidate_details) \<Rightarrow>
             (case call_callback progress_callback
                     ''**Status:** Resume Redacted ... **Now:** Parsing resume'' of
                Some e \<Rightarrow> handler
              | None \<Rightarrow> Inr (processed_resume, CandidateDetail_instance candidate_details)))"

definition analyse ::
  "collaborators \<Rightarrow> MatchingOrchestrator \<Rightarrow> string \<Rightarrow> string \<Rightarrow> string \<Rightarrow> string
     \<Rightarrow> progress_callback \<Rightarrow> (exn + AnalysisReport) \<times> MatchingOrchestrator" where
  "analyse env self resume_source job_source candidate_id0 job_id0 progress_callback =
     (let timestamp = dt_stamp (datetime_now env);
          candidate_id = (if candidate_id0 = [] then ''cand_'' @ timestamp else candidate_id0);
          job_id = (if job_id0 = [] then ''job_'' @ timestamp else job_id0)
      in case guarded_step progress_callback (load_document env resume_source)
                ''**Status:** Resume loaded ... **Now:** Loading job ad''
                ''**Status:** Resume load failed''
                (\<lambda>e. ValueError (''Failed to load resume from '' @ resume_source @ '': ''
                                    @ exn_str e)) of
           Inl e \<Rightarrow> (Inl e, self)
         | Inr resume_text \<Rightarrow>
      (case guarded_step progress_callback (load_document env job_source)
                ''**Status:** Job loaded ... **Now:** Redacting resume''
                ''**Status:** Job load failed''
                (\<lambda>e. ValueError (''Failed to load job from '' @ job_source @ '': ''
                                    @ exn_str e)) of
           Inl e \<Rightarrow> (Inl e, self)
         | Inr job_text \<Rightarrow>
      (case redact_step env progress_callback resume_text candidate_id of
           Inl e \<Rightarrow> (Inl e, self)
         | Inr (processed_resume, candidate_details) \<Rightarrow>
      (case guarded_step progress_callback
                (parse_resume env (redacted_text processed_resume) candidate_id)
                ''**Status:** Resume parsed ... **Now:** Parsing job ad''
                ''**Status:** Resume parse failed''
                (\<lambda>e. Exception (''Resume parsing failed: '' @ exn_str e)) of
           Inl e \<Rightarrow> (Inl e, self)
         | Inr parsed_resume \<Rightarrow>
      (case guarded_step progress_callback (parse_job env job_text job_id)
                ''**Status:** Job ad parsed ... **Now:** Computing fit''
                ''**Status:** Job ad parsing failed''
                (\<lambda>e. Exception (''Job parsing failed: '' @ exn_str e)) of
           Inl e \<Rightarrow> (Inl e, self)
         | Inr parsed_job \<Rightarrow>
      (case guarded_step progress_callback (match_candidate_to_job env parsed_resume parsed_job)
                ''**Status:** Candidate fit analysed ... **Now:** Generating summary''
                ''**Status:** Candidate fit analysis failed''
                (\<lambda>e. Exception (''Matching failed: '' @ exn_str e)) of
           Inl e \<Rightarrow> (Inl e, self)
         | Inr fit_analysis \<Rightarrow>
      (case generate_summary env fit_analysis parsed_resume parsed_job None None of
           Inl e \<Rightarrow> (Inl (Exception (''Summary generation failed: '' @ exn_str e)), self)
         | Inr (summary, thread) \<Rightarrow>
             (AnalysisReport_init candidate_details job_id summary fit_analysis parsed_resume
                parsed_job (datetime_now env),
              self \<lparr> message_thread := Some thread \<rparr>))))))))"

text \<open>
  \<open>regenerate_summary\<close> mutates the report it is given and the orchestrator; the model
  returns the result together with both after the call.
\<close>

definition regenerate_summary ::
  "collaborators \<Rightarrow> MatchingOrchestrator \<Rightarrow> AnalysisReport \<Rightarrow> string
     \<Rightarrow> (exn + SummaryGenerated) \<times> MatchingOrchestrator \<times> AnalysisReport" where
  "regenerate_summary env self report recruiter_feedback =
     (case generate_summary env (ar_fit_analysis report) (ar_resume report) (ar_job report)
             (Some recruiter_feedback) (message_thread self) of
        Inl e \<Rightarrow>
          (Inl (Exception (''Summary generation failed: '' @ exn_str e)), self, report)
      | Inr (summary, thread) \<Rightarrow>
          (Inr summary,
           self \<lparr> message_thread := Some thread \<rparr>,
           report \<lparr> ar_summary := summary \<rparr>))"

section \<open>A run in which the token classifier is unavailable\<close>

text \<open>
  Both documents load, the classifier raises, every agent answers, and the progress
  callback returns normally.
\<close>

definition sample_resume :: ParsedResume where
  "sample_resume =
     \<lparr> pr_candidate_id = ''from the model'', pr_skills = [''python''], pr_qualifications = [],
       pr_total_experience_years = Some 3 \<rparr>"

definition sample_job :: ParsedJob where
  "sample_job =
     \<lparr> pj_job_id = ''from the model'', pj_required_skills = [''python''],
       pj_required_experience_years = Some 2, pj_education_requirement = None \<rparr>"

definition sample_fit :: FitAnalysis where
  "sample_fit =
     \<lparr> fa_candidate_id = [], fa_job_id = [], fa_overall_fit_score = 80,
       fa_recommendation = ''Progress'' \<rparr>"

definition sample_summary :: SummaryGenerated where
  "sample_summary = \<lparr> sg_candidate_id = [], sg_job_id = [], sg_summary = ''A good fit.'' \<rparr>"

definition classifier_down :: collaborators where
  "classifier_down =
     \<lparr> load_document = (\<lambda>source. Inr ''Jane Doe, engineer''),
       regex_finditer = (\<lambda>pat txt. []),
       ner_pipeline = (\<lambda>txt. Inl (Raised ''model unavailable'')),
       datetime_now = \<lparr> dt_instant = 0, dt_stamp = ''20240101_000000'' \<rparr>,
       resume_agent = (\<lambda>prompt. Inr sample_resume),
       job_agent = (\<lambda>prompt. Inr sample_job),
       matcher_agent = (\<lambda>resume job. Inr sample_fit),
       summary_agent =
         (\<lambda>context history.
            Inr (sample_summary,
                 (case history of None \<Rightarrow> [] | Some h \<Rightarrow> h) @ [''request'', ''response''])) \<rparr>"

text \<open>The same collaborators with a classifier that finds nothing.\<close>

definition classifier_up :: collaborators where
  "classifier_up = classifier_down \<lparr> ner_pipeline := (\<lambda>txt. Inr []) \<rparr>"

definition sample_report :: AnalysisReport where
  "sample_report =
     \<lparr> ar_candidate_details = CandidateDetail_init ''c1'', ar_job_id = ''j1'',
       ar_summary = sample_summary, ar_fit_analysis = sample_fit,
       ar_resume = sample_resume \<lparr> pr_candidate_id := ''c1'' \<rparr>,
       ar_job = sample_job \<lparr> pj_job_id := ''j1'' \<rparr>,
       ar_generated_at = \<lparr> dt_instant = 0, dt_stamp = ''20240101_000000'' \<rparr> \<rparr>"

section \<open>Rounding\<close>

lemma round_half_even_ratio_close:
  assumes "0 < q"
  shows "\<bar>of_int (round_half_even_ratio p q) - (of_int p / of_int q :: real)\<bar> \<le> 1 / 2"
    and "\<bar>of_int (round_half_even_ratio p q) - (of_int p / of_int q :: real)\<bar> < 1 / 2
         \<or> even (round_half_even_ratio p q)"
proof -
  define f where "f = p div q"
  define r where "r = p mod q"
  have "p = q * f + r"
    by (simp add: f_def r_def)
  then have "(of_int p :: real) = of_int q * of_int f + of_int r"
    by (metis of_int_add of_int_mult)
  then have pq: "(of_int p / of_int q :: real) = of_int f + of_int r / of_int q"
    using assms by (simp add: field_simps)
  have r: "0 \<le> r" "r < q"
    using assms by (simp_all add: r_def)
  have q: "(0::real) < of_int q"
    using assms by simp
  have half: "2 * r < q \<longleftrightarrow> (of_int r / of_int q :: real) < 1 / 2"
    "q < 2 * r \<longleftrightarrow> 1 / 2 < (of_int r / of_int q :: real)"
    using q by (simp_all add: field_simps) (metis of_int_less_iff of_int_mult of_int_numeral mult.commute)+
  have bounds: "0 \<le> (of_int r / of_int q :: real)" "(of_int r / of_int q :: real) < 1"
    using r q by simp_all
  have def: "round_half_even_ratio p q =
      (if 2 * r < q then f else if q < 2 * r then f + 1 else if even f then f else f + 1)"
    by (simp add: round_half_even_ratio_def f_def r_def Let_def)
  show "\<bar>of_int (round_half_even_ratio p q) - (of_int p / of_int q :: real)\<bar> \<le> 1 / 2"
    unfolding def pq using half bounds by (auto simp: abs_le_iff)
  show "\<bar>of_int (round_half_even_ratio p q) - (of_int p / of_int q :: real)\<bar> < 1 / 2
         \<or> even (round_half_even_ratio p q)"
    unfolding def pq using half bounds by (auto simp: abs_less_iff)
qed

lemma bit_length_bounds:
  "0 < n \<Longrightarrow> (2::nat) ^ (bit_length n - 1) \<le> n \<and> n < 2 ^ bit_length n"
proof (induction n rule: bit_length.induct)
  case (1 n)
  from 1(2) have n: "n \<noteq> 0" by simp
  have bl: "bit_length n = Suc (bit_length (n div 2))"
    using n by (subst bit_length.simps) simp
  show ?case
  proof (cases "n div 2 = 0")
    case True
    with 1(2) have "n = 1" by (simp add: div_eq_0_iff)
    then show ?thesis by (simp add: bit_length.simps)
  next
    case False
    then have pos: "0 < n div 2" by simp
    from 1(1) [OF n pos]
    have ih: "(2::nat) ^ (bit_length (n div 2) - 1) \<le> n div 2"
      "n div 2 < 2 ^ bit_length (n div 2)"
      by auto
    have b1: "0 < bit_length (n div 2)"
      using False by (subst bit_length.simps) simp
    then have "(2::nat) ^ bit_length (n div 2) = 2 * 2 ^ (bit_length (n div 2) - 1)"
      by (cases "bit_length (n div 2)") simp_all
    with ih have "(2::nat) ^ bit_length (n div 2) \<le> 2 * (n div 2)"
      "2 * (n div 2) + 1 < 2 * 2 ^ bit_length (n div 2)"
      by simp_all
    then show ?thesis
      unfolding bl by simp presburger
  qed
qed

lemma scaled_compare:
  fixes c q P k :: int
  shows "(c * q * 2 ^ nat (- k) \<le> P * 2 ^ nat k)
          \<longleftrightarrow> ((of_int c :: real) * of_int q \<le> of_int P * 2 powi k)"
proof (cases "0 \<le> k")
  case True
  then have "(of_int P :: real) * 2 powi k = of_int (P * 2 ^ nat k)"
    by (simp add: power_int_nonneg_exp)
  moreover have "(of_int c :: real) * of_int q = of_int (c * q * 2 ^ nat (- k))"
    using True by simp
  ultimately show ?thesis
    by (simp only: of_int_le_iff)
next
  case False
  then have "(2::real) powi k = 1 / 2 ^ nat (- k)"
    by (simp add: power_int_def power_one_over inverse_eq_divide)
  then have "((of_int c :: real) * of_int q \<le> of_int P * 2 powi k)
      \<longleftrightarrow> ((of_int c :: real) * of_int q \<le> of_int P / 2 ^ nat (- k))"
    by simp
  also have "\<dots> \<longleftrightarrow> ((of_int c :: real) * of_int q * 2 ^ nat (- k) \<le> of_int P)"
    by (simp add: pos_le_divide_eq)
  also have "\<dots> \<longleftrightarrow> ((of_int (c * q * 2 ^ nat (- k)) :: real) \<le> of_int (P * 2 ^ nat k))"
    using False by simp
  also have "\<dots> \<longleftrightarrow> (c * q * 2 ^ nat (- k) \<le> P * 2 ^ nat k)"
    by (simp only: of_int_le_iff)
  finally show ?thesis by simp
qed

lemma scaled_ratio:
  fixes p q k :: int
  assumes "0 < q"
  shows "(of_int (p * 2 ^ nat k) :: real) / of_int (q * 2 ^ nat (- k))
           = of_int p / of_int q * 2 powi k"
proof (cases "0 \<le> k")
  case True
  then show ?thesis by (simp add: power_int_nonneg_exp)
next
  case False
  then have "(2::real) powi k = 1 / 2 ^ nat (- k)"
    by (simp add: power_int_def power_one_over inverse_eq_divide)
  with False show ?thesis by simp
qed

text \<open>The scale at which a ratio has a mantissa of 53 bits.\<close>

lemma nearest_double_scale:
  fixes p q :: int
  assumes "p \<noteq> 0" "0 < q"
  defines "k0 \<equiv> 53 + int (bit_length (nat q)) - int (bit_length (nat \<bar>p\<bar>))"
  defines "k \<equiv> (if 2 ^ 53 * q * 2 ^ nat (- k0) \<le> \<bar>p\<bar> * 2 ^ nat k0 then k0 - 1 else k0)"
  shows "2 ^ 52 * (of_int q :: real) \<le> of_int \<bar>p\<bar> * 2 powi k"
    and "of_int \<bar>p\<bar> * 2 powi k < 2 ^ 53 * (of_int q :: real)"
proof -
  define bp where "bp = bit_length (nat \<bar>p\<bar>)"
  define bq where "bq = bit_length (nat q)"
  have P: "0 < nat \<bar>p\<bar>" and Q: "0 < nat q"
    using assms by simp_all
  from bit_length_bounds [OF P]
  have p1: "(2::nat) ^ (bp - 1) \<le> nat \<bar>p\<bar>" and p2: "nat \<bar>p\<bar> < 2 ^ bp"
    by (simp_all add: bp_def)
  from bit_length_bounds [OF Q]
  have q1: "(2::nat) ^ (bq - 1) \<le> nat q" and q2: "nat q < 2 ^ bq"
    by (simp_all add: bq_def)
  have bp_pos: "0 < bp"
    using p2 P by (cases bp) simp_all
  have bq_pos: "0 < bq"
    using q2 Q by (cases bq) simp_all
  have rp1: "(2::real) powi (int bp - 1) \<le> of_int \<bar>p\<bar>"
  proof -
    have "(2::real) powi (int bp - 1) = 2 ^ (bp - 1)"
      using bp_pos by (simp add: power_int_def nat_diff_distrib')
    also have "\<dots> = real (2 ^ (bp - 1))" by simp
    also have "\<dots> \<le> real (nat \<bar>p\<bar>)" using p1 by (simp only: of_nat_le_iff)
    also have "\<dots> = of_int \<bar>p\<bar>" by simp
    finally show ?thesis .
  qed
  have rp2: "of_int \<bar>p\<bar> < (2::real) powi int bp"
  proof -
    have "of_int \<bar>p\<bar> = real (nat \<bar>p\<bar>)" by simp
    also have "\<dots> < real (2 ^ bp)" using p2 by (simp only: of_nat_less_iff)
    also have "\<dots> = 2 powi int bp" by simp
    finally show ?thesis .
  qed
  have rq1: "(2::real) powi (int bq - 1) \<le> of_int q"
  proof -
    have "(2::real) powi (int bq - 1) = 2 ^ (bq - 1)"
      using bq_pos by (simp add: power_int_def nat_diff_distrib')
    also have "\<dots> = real (2 ^ (bq - 1))" by simp
    also have "\<dots> \<le> real (nat q)" using q1 by (simp only: of_nat_le_iff)
    also have "\<dots> = of_int q" using assms by simp
    finally show ?thesis .
  qed
  have rq2: "of_int q < (2::real) powi int bq"
  proof -
    have "of_int q = real (nat q)" using assms by simp
    also have "\<dots> < real (2 ^ bq)" using q2 by (simp only: of_nat_less_iff)
    also have "\<dots> = 2 powi int bq" by simp
    finally show ?thesis .
  qed
  have k0: "k0 = 53 + int bq - int bp"
    by (simp add: k0_def bp_def bq_def)
  have lo0: "2 ^ 52 * (of_int q :: real) < of_int \<bar>p\<bar> * 2 powi k0"
  proof -
    have "2 ^ 52 * (of_int q :: real) < 2 ^ 52 * 2 powi int bq"
      using rq2 by simp
    also have "\<dots> = 2 powi 52 * 2 powi int bq"
      by simp
    also have "\<dots> = 2 powi (52 + int bq)"
      by (rule power_int_add [symmetric]) simp
    also have "\<dots> = 2 powi (int bp - 1 + k0)"
      by (rule arg_cong [where f = "power_int 2"]) (simp add: k0)
    also have "\<dots> = 2 powi (int bp - 1) * 2 powi k0"
      using power_int_add [of "2::real" "int bp - 1" k0] by simp
    also have "\<dots> \<le> of_int \<bar>p\<bar> * 2 powi k0"
      using rp1 by (intro mult_right_mono) simp_all
    finally show ?thesis .
  qed
  have hi0: "of_int \<bar>p\<bar> * 2 powi k0 < 2 ^ 54 * (of_int q :: real)"
  proof -
    have "(of_int \<bar>p\<bar> :: real) * 2 powi k0 < 2 powi int bp * 2 powi k0"
      using rp2 by (intro mult_strict_right_mono) simp_all
    also have "\<dots> = 2 powi (int bp + k0)"
      using power_int_add [of "2::real" "int bp" k0] by simp
    also have "\<dots> = 2 powi (54 + (int bq - 1))"
      by (rule arg_cong [where f = "power_int 2"]) (simp add: k0)
    also have "\<dots> = 2 powi 54 * 2 powi (int bq - 1)"
      by (rule power_int_add) simp
    also have "\<dots> = 2 ^ 54 * 2 powi (int bq - 1)"
      by simp
    also have "\<dots> \<le> 2 ^ 54 * (of_int q :: real)"
      using rq1 by simp
    finally show ?thesis .
  qed
  have cond: "(2 ^ 53 * q * 2 ^ nat (- k0) \<le> \<bar>p\<bar> * 2 ^ nat k0)
      \<longleftrightarrow> (2 ^ 53 * (of_int q :: real) \<le> of_int \<bar>p\<bar> * 2 powi k0)"
    using scaled_compare [of "2 ^ 53" q k0 "\<bar>p\<bar>"] by simp
  have step: "(2::real) powi (k0 - 1) = 2 powi k0 / 2"
    by (simp add: power_int_diff)
  define x :: real where "x = of_int \<bar>p\<bar> * 2 powi k0"
  have half: "of_int \<bar>p\<bar> * 2 powi (k0 - 1) = x / 2"
    by (simp add: x_def step)
  have kx: "of_int \<bar>p\<bar> * 2 powi k = (if 2 ^ 53 * of_int q \<le> x then x / 2 else x)"
    using cond half by (simp add: k_def x_def)
  have lo: "2 ^ 52 * of_int q < x" and hi: "x < 2 ^ 54 * of_int q"
    using lo0 hi0 by (simp_all add: x_def)
  show "2 ^ 52 * (of_int q :: real) \<le> of_int \<bar>p\<bar> * 2 powi k"
    unfolding kx using lo by auto
  show "of_int \<bar>p\<bar> * 2 powi k < 2 ^ 53 * (of_int q :: real)"
    unfolding kx using hi by auto
qed

lemma valof_Double: "valof (Double m e) = of_int m * 2 powi e"
  by (simp add: valof_def)

lemma nearest_double_form:
  fixes p q :: int
  assumes "p \<noteq> 0" "0 < q"
  shows "\<exists>k. nearest_double p q
               = Double (round_half_even_ratio (p * 2 ^ nat k) (q * 2 ^ nat (- k))) (- k)
            \<and> 2 ^ 52 * (of_int q :: real) \<le> of_int \<bar>p\<bar> * 2 powi k
            \<and> of_int \<bar>p\<bar> * 2 powi k < 2 ^ 53 * (of_int q :: real)"
proof -
  define k0 where "k0 = 53 + int (bit_length (nat q)) - int (bit_length (nat \<bar>p\<bar>))"
  define k where "k = (if 2 ^ 53 * q * 2 ^ nat (- k0) \<le> \<bar>p\<bar> * 2 ^ nat k0 then k0 - 1 else k0)"
  have "nearest_double p q
          = Double (round_half_even_ratio (p * 2 ^ nat k) (q * 2 ^ nat (- k))) (- k)"
    unfolding nearest_double_def Let_def k_def k0_def using assms(1) by (simp only: if_False)
  moreover have "2 ^ 52 * (of_int q :: real) \<le> of_int \<bar>p\<bar> * 2 powi k"
    "of_int \<bar>p\<bar> * 2 powi k < 2 ^ 53 * (of_int q :: real)"
    unfolding k_def k0_def by (rule nearest_double_scale [OF assms])+
  ultimately show ?thesis
    by blast
qed

text \<open>Rounding to the nearest double has a relative error of at most \<open>2^-53\<close>.\<close>

lemma nearest_double_error:
  fixes p q :: int
  assumes q: "0 < q"
  shows "\<bar>valof (nearest_double p q) - of_int p / of_int q\<bar> \<le> \<bar>of_int p / of_int q\<bar> / 2 ^ 53"
proof (cases "p = 0")
  case True
  then show ?thesis
    by (simp add: nearest_double_def valof_Double)
next
  case False
  from nearest_double_form [OF False q] obtain k where
    nd: "nearest_double p q
           = Double (round_half_even_ratio (p * 2 ^ nat k) (q * 2 ^ nat (- k))) (- k)"
    and lo: "2 ^ 52 * (of_int q :: real) \<le> of_int \<bar>p\<bar> * 2 powi k"
    by blast
  define M where "M = round_half_even_ratio (p * 2 ^ nat k) (q * 2 ^ nat (- k))"
  define x :: real where "x = of_int p / of_int q"
  define t :: real where "t = 2 powi k"
  have t: "0 < t" by (simp add: t_def)
  have inv: "(2::real) powi (- k) = 1 / t"
    by (simp add: t_def power_int_minus_divide)
  have "0 < q * 2 ^ nat (- k)"
    using q by simp
  from round_half_even_ratio_close(1) [OF this, of "p * 2 ^ nat k"]
  have "\<bar>of_int M - (of_int (p * 2 ^ nat k) :: real) / of_int (q * 2 ^ nat (- k))\<bar> \<le> 1 / 2"
    by (simp only: M_def)
  then have close: "\<bar>of_int M - x * t\<bar> \<le> 1 / 2"
    unfolding scaled_ratio [OF q] by (simp only: x_def t_def)
  have "2 ^ 52 * (of_int q :: real) \<le> \<bar>of_int p\<bar> * t"
    using lo by (simp add: t_def)
  then have "2 ^ 52 \<le> \<bar>of_int p\<bar> * t / (of_int q :: real)"
    using q by (simp add: pos_le_divide_eq)
  also have "\<dots> = \<bar>x\<bar> * t"
    using q by (simp add: x_def abs_divide)
  finally have big: "2 ^ 52 \<le> \<bar>x\<bar> * t" .
  have "valof (nearest_double p q) - x = (of_int M - x * t) / t"
    using t by (simp add: nd valof_Double M_def [symmetric] inv field_simps)
  then have "\<bar>valof (nearest_double p q) - x\<bar> = \<bar>of_int M - x * t\<bar> / t"
    using t by (simp add: abs_divide)
  also have "\<dots> \<le> (1 / 2) / t"
    using close t by (intro divide_right_mono) simp_all
  also have "\<dots> = 2 ^ 52 / t / 2 ^ 53"
    by simp
  also have "\<dots> \<le> \<bar>x\<bar> / 2 ^ 53"
  proof -
    have "2 ^ 52 / t \<le> \<bar>x\<bar>"
      using big t by (simp add: pos_divide_le_eq)
    then show ?thesis
      by (intro divide_right_mono) simp_all
  qed
  finally show ?thesis
    by (simp only: x_def)
qed

lemma ratio_valof:
  "0 < snd (ratio x) \<and> valof x = of_int (fst (ratio x)) / of_int (snd (ratio x))"
proof (cases "0 \<le> exponent x")
  case True
  then show ?thesis
    by (simp add: ratio_def valof_def power_int_nonneg_exp)
next
  case False
  then have "(2::real) powi exponent x = 1 / 2 ^ nat (- exponent x)"
    by (simp add: power_int_def power_one_over inverse_eq_divide)
  with False show ?thesis
    by (simp add: ratio_def valof_def)
qed

lemma float_mul_error:
  "\<bar>valof (float_mul x y) - valof x * valof y\<bar> \<le> \<bar>valof x * valof y\<bar> / 2 ^ 53"
proof -
  obtain a b where x: "ratio x = (a, b)" by (cases "ratio x")
  obtain c d where y: "ratio y = (c, d)" by (cases "ratio y")
  from ratio_valof [of x] x have b: "0 < b" and vx: "valof x = of_int a / of_int b"
    by simp_all
  from ratio_valof [of y] y have d: "0 < d" and vy: "valof y = of_int c / of_int d"
    by simp_all
  have bd: "0 < b * d" using b d by simp
  have "valof x * valof y = of_int (a * c) / of_int (b * d)"
    by (simp add: vx vy)
  with nearest_double_error [OF bd, of "a * c"] show ?thesis
    by (simp add: float_mul_def x y)
qed

lemma float_add_error:
  "\<bar>valof (float_add x y) - (valof x + valof y)\<bar> \<le> \<bar>valof x + valof y\<bar> / 2 ^ 53"
proof -
  obtain a b where x: "ratio x = (a, b)" by (cases "ratio x")
  obtain c d where y: "ratio y = (c, d)" by (cases "ratio y")
  from ratio_valof [of x] x have b: "0 < b" and vx: "valof x = of_int a / of_int b"
    by simp_all
  from ratio_valof [of y] y have d: "0 < d" and vy: "valof y = of_int c / of_int d"
    by simp_all
  have bd: "0 < b * d" using b d by simp
  have "valof x + valof y = of_int (a * d + c * b) / of_int (b * d)"
    using b d by (simp add: vx vy field_simps)
  with nearest_double_error [OF bd, of "a * d + c * b"] show ?thesis
    by (simp add: float_add_def x y)
qed

lemma float_literal_error:
  "\<bar>valof (float_literal n places) - of_int n / 10 ^ places\<bar> \<le> \<bar>of_int n / 10 ^ places\<bar> / 2 ^ 53"
  using nearest_double_error [of "10 ^ places" n] by (simp add: float_literal_def)

lemma round_float_2:
  "\<exists>N. round_float x 2 = nearest_double N 100
       \<and> \<bar>valof x - of_int N / 100\<bar> \<le> 1 / 200
       \<and> (\<bar>valof x - of_int N / 100\<bar> < 1 / 200 \<or> even N)
       \<and> \<bar>valof (round_float x 2) - of_int N / 100\<bar> \<le> \<bar>of_int N / 100\<bar> / 2 ^ 53"
proof -
  obtain a b where x: "ratio x = (a, b)" by (cases "ratio x")
  from ratio_valof [of x] x have b: "0 < b" and vx: "valof x = of_int a / of_int b"
    by simp_all
  define N where "N = round_half_even_ratio (a * 100) b"
  have r: "round_float x 2 = nearest_double N 100"
    by (simp add: round_float_def x N_def)
  have sc: "(of_int (a * 100) :: real) / of_int b = valof x * 100"
    by (simp add: vx)
  from round_half_even_ratio_close [OF b, of "a * 100"]
  have "\<bar>of_int N - valof x * 100\<bar> \<le> 1 / 2"
    "\<bar>of_int N - valof x * 100\<bar> < 1 / 2 \<or> even N"
    unfolding sc N_def by simp_all
  moreover have "\<bar>valof x - of_int N / 100\<bar> = \<bar>of_int N - valof x * 100\<bar> / 100"
  proof -
    have "valof x - of_int N / 100 = - ((of_int N - valof x * 100) / 100)"
      by (simp add: field_simps)
    then show ?thesis
      by (simp only: abs_minus_cancel abs_divide abs_numeral)
  qed
  ultimately have c: "\<bar>valof x - of_int N / 100\<bar> \<le> 1 / 200"
    "\<bar>valof x - of_int N / 100\<bar> < 1 / 200 \<or> even N"
    by auto
  have "\<bar>valof (nearest_double N 100) - of_int N / 100\<bar> \<le> \<bar>of_int N / 100\<bar> / 2 ^ 53"
    using nearest_double_error [of 100 N] by simp
  with r c show ?thesis
    by auto
qed

lemma nearest_double_zero: "nearest_double 0 q = Double 0 0"
  by (simp add: nearest_double_def)

lemma scale_order:
  fixes x A :: real
  assumes "0 < x" "A \<le> x * 2 powi a" "x * 2 powi b < 2 * A"
  shows "b \<le> a"
proof (rule ccontr)
  assume "\<not> b \<le> a"
  then have "a + 1 \<le> b" by simp
  then have "(2::real) powi (a + 1) \<le> 2 powi b"
    by (intro power_int_increasing) simp_all
  moreover have "(2::real) powi (a + 1) = 2 powi a * 2"
    by (rule power_int_add_1) simp
  ultimately have "2 * 2 powi a \<le> (2::real) powi b"
    by simp
  then have "x * (2 * 2 powi a) \<le> x * 2 powi b"
    using assms(1) by (intro mult_left_mono) simp_all
  with assms(2,3) show False
    by simp
qed

text \<open>
  The scale of \<open>nearest_double\<close> is the one at which the ratio lies between \<open>2^52\<close> and
  \<open>2^53\<close>; knowing it, the result is computed without \<open>bit_length\<close>.
\<close>

lemma nearest_double_eqI:
  fixes p q k' :: int
  assumes "p \<noteq> 0" "0 < q"
    and lo': "2 ^ 52 * q * 2 ^ nat (- k') \<le> \<bar>p\<bar> * 2 ^ nat k'"
    and hi': "\<bar>p\<bar> * 2 ^ nat k' < 2 ^ 53 * q * 2 ^ nat (- k')"
  shows "nearest_double p q
           = Double (round_half_even_ratio (p * 2 ^ nat k') (q * 2 ^ nat (- k'))) (- k')"
proof -
  from nearest_double_form [OF assms(1,2)] obtain k where
    nd: "nearest_double p q
           = Double (round_half_even_ratio (p * 2 ^ nat k) (q * 2 ^ nat (- k))) (- k)"
    and lo: "2 ^ 52 * (of_int q :: real) \<le> of_int \<bar>p\<bar> * 2 powi k"
    and hi: "of_int \<bar>p\<bar> * 2 powi k < 2 ^ 53 * (of_int q :: real)"
    by blast
  have rlo': "2 ^ 52 * (of_int q :: real) \<le> of_int \<bar>p\<bar> * 2 powi k'"
    using lo' scaled_compare [of "2 ^ 52" q k' "\<bar>p\<bar>"] by simp
  have "\<not> 2 ^ 53 * q * 2 ^ nat (- k') \<le> \<bar>p\<bar> * 2 ^ nat k'"
    using hi' by simp
  then have rhi': "of_int \<bar>p\<bar> * 2 powi k' < 2 ^ 53 * (of_int q :: real)"
    using scaled_compare [of "2 ^ 53" q k' "\<bar>p\<bar>"] by simp
  have x: "(0::real) < of_int \<bar>p\<bar>"
    using assms(1) by simp
  have rhi2: "of_int \<bar>p\<bar> * 2 powi k' < 2 * (2 ^ 52 * (of_int q :: real))"
    using rhi' by simp
  have hi2: "of_int \<bar>p\<bar> * 2 powi k < 2 * (2 ^ 52 * (of_int q :: real))"
    using hi by simp
  have "k' \<le> k"
    by (rule scale_order [OF x lo rhi2])
  moreover have "k \<le> k'"
    by (rule scale_order [OF x rlo' hi2])
  ultimately have "k = k'" by simp
  with nd show ?thesis by simp
qed

section \<open>Accumulated rounding error\<close>

lemma mul_error_bound:
  fixes t X w W u :: real
  assumes u: "0 \<le> u" and w: "\<bar>w - W\<bar> \<le> u * \<bar>W\<bar>" and t: "\<bar>t - X * w\<bar> \<le> u * \<bar>X * w\<bar>"
  shows "\<bar>t - X * W\<bar> \<le> ((1 + u)\<^sup>2 - 1) * (\<bar>X\<bar> * \<bar>W\<bar>)"
proof -
  define M where "M = \<bar>X\<bar> * \<bar>W\<bar>"
  have M: "0 \<le> M" by (simp add: M_def)
  have "\<bar>X * w - X * W\<bar> = \<bar>X\<bar> * \<bar>w - W\<bar>"
    by (simp add: abs_mult [symmetric] right_diff_distrib)
  also have "\<dots> \<le> \<bar>X\<bar> * (u * \<bar>W\<bar>)"
    using w by (intro mult_left_mono) simp_all
  finally have 1: "\<bar>X * w - X * W\<bar> \<le> u * M"
    by (simp add: M_def mult_ac)
  have "\<bar>X * w\<bar> \<le> \<bar>X * W\<bar> + \<bar>X * w - X * W\<bar>"
    by simp
  with 1 have 2: "\<bar>X * w\<bar> \<le> M + u * M"
    by (simp add: M_def abs_mult)
  have "u * \<bar>X * w\<bar> \<le> u * (M + u * M)"
    using u 2 by (intro mult_left_mono) simp_all
  with t have 3: "\<bar>t - X * w\<bar> \<le> u * (M + u * M)"
    by simp
  have "\<bar>t - X * W\<bar> \<le> \<bar>t - X * w\<bar> + \<bar>X * w - X * W\<bar>"
    by simp
  with 1 3 have "\<bar>t - X * W\<bar> \<le> u * (M + u * M) + u * M"
    by simp
  also have "\<dots> = ((1 + u)\<^sup>2 - 1) * M"
    by (simp add: power2_eq_square algebra_simps)
  finally show ?thesis
    by (simp only: M_def)
qed

lemma add_error_bound:
  fixes s x x' y y' A B u :: real
  assumes u: "0 \<le> u"
    and x: "\<bar>x' - x\<bar> \<le> ((1 + u) ^ n - 1) * A" "\<bar>x\<bar> \<le> A"
    and y: "\<bar>y' - y\<bar> \<le> ((1 + u) ^ n - 1) * B" "\<bar>y\<bar> \<le> B"
    and s: "\<bar>s - (x' + y')\<bar> \<le> u * \<bar>x' + y'\<bar>"
  shows "\<bar>s - (x + y)\<bar> \<le> ((1 + u) ^ Suc n - 1) * (A + B)"
    and "\<bar>x + y\<bar> \<le> A + B"
proof -
  define g where "g = (1 + u) ^ n"
  define ex where "ex = (g - 1) * A"
  define ey where "ey = (g - 1) * B"
  have x1: "\<bar>x' - x\<bar> \<le> ex" and y1: "\<bar>y' - y\<bar> \<le> ey"
    using x(1) y(1) by (simp_all add: ex_def ey_def g_def)
  show xy: "\<bar>x + y\<bar> \<le> A + B"
    using x(2) y(2) by simp
  have "\<bar>x' + y'\<bar> \<le> A + B + ex + ey"
    using x1 y1 x(2) y(2) by simp
  also have "\<dots> = g * (A + B)"
    by (simp add: ex_def ey_def algebra_simps)
  finally have "u * \<bar>x' + y'\<bar> \<le> u * (g * (A + B))"
    using u by (intro mult_left_mono) simp_all
  with s have "\<bar>s - (x' + y')\<bar> \<le> u * (g * (A + B))"
    by simp
  with x1 y1 have "\<bar>s - (x + y)\<bar> \<le> u * (g * (A + B)) + ex + ey"
    by simp
  also have "\<dots> = ((1 + u) ^ Suc n - 1) * (A + B)"
    by (simp add: ex_def ey_def g_def algebra_simps)
  finally show "\<bar>s - (x + y)\<bar> \<le> ((1 + u) ^ Suc n - 1) * (A + B)" .
qed

lemma error_level_mono:
  fixes x x' A u :: real
  assumes "0 \<le> u" "m \<le> n" "0 \<le> A" "\<bar>x' - x\<bar> \<le> ((1 + u) ^ m - 1) * A"
  shows "\<bar>x' - x\<bar> \<le> ((1 + u) ^ n - 1) * A"
proof -
  have "(1 + u) ^ m \<le> (1 + u) ^ n"
    using assms(1,2) by (intro power_increasing) simp_all
  then have "((1 + u) ^ m - 1) * A \<le> ((1 + u) ^ n - 1) * A"
    using assms(3) by (intro mult_right_mono) simp_all
  with assms(4) show ?thesis
    by simp
qed

lemma unit_roundoff_nonneg: "0 \<le> unit_roundoff"
  by (simp add: unit_roundoff_def)

lemma float_mul_roundoff:
  "\<bar>valof (float_mul x y) - valof x * valof y\<bar> \<le> unit_roundoff * \<bar>valof x * valof y\<bar>"
  using float_mul_error [of x y] by (simp add: unit_roundoff_def)

lemma float_add_roundoff:
  "\<bar>valof (float_add x y) - (valof x + valof y)\<bar> \<le> unit_roundoff * \<bar>valof x + valof y\<bar>"
  using float_add_error [of x y] by (simp add: unit_roundoff_def)

lemma float_literal_roundoff:
  "\<bar>valof (float_literal 30 2) - 0.30\<bar> \<le> unit_roundoff * \<bar>0.30\<bar>"
  "\<bar>valof (float_literal 10 2) - 0.10\<bar> \<le> unit_roundoff * \<bar>0.10\<bar>"
  "\<bar>valof (float_literal 15 2) - 0.15\<bar> \<le> unit_roundoff * \<bar>0.15\<bar>"
  using float_literal_error [of 30 2] float_literal_error [of 10 2] float_literal_error [of 15 2]
  by (simp_all add: unit_roundoff_def)

lemma weighted_sum_chain:
  fixes u :: real
  assumes u: "0 \<le> u"
    and w1: "\<bar>w1 - W1\<bar> \<le> u * \<bar>W1\<bar>" and w2: "\<bar>w2 - W2\<bar> \<le> u * \<bar>W2\<bar>"
    and w3: "\<bar>w3 - W3\<bar> \<le> u * \<bar>W3\<bar>" and w4: "\<bar>w4 - W4\<bar> \<le> u * \<bar>W4\<bar>"
    and w5: "\<bar>w5 - W5\<bar> \<le> u * \<bar>W5\<bar>"
    and t1: "\<bar>t1 - X1 * w1\<bar> \<le> u * \<bar>X1 * w1\<bar>" and t2: "\<bar>t2 - X2 * w2\<bar> \<le> u * \<bar>X2 * w2\<bar>"
    and t3: "\<bar>t3 - X3 * w3\<bar> \<le> u * \<bar>X3 * w3\<bar>" and t4: "\<bar>t4 - X4 * w4\<bar> \<le> u * \<bar>X4 * w4\<bar>"
    and t5: "\<bar>t5 - X5 * w5\<bar> \<le> u * \<bar>X5 * w5\<bar>"
    and s1: "\<bar>s1 - (t1 + t2)\<bar> \<le> u * \<bar>t1 + t2\<bar>" and s2: "\<bar>s2 - (s1 + t3)\<bar> \<le> u * \<bar>s1 + t3\<bar>"
    and s3: "\<bar>s3 - (s2 + t4)\<bar> \<le> u * \<bar>s2 + t4\<bar>" and s4: "\<bar>s4 - (s3 + t5)\<bar> \<le> u * \<bar>s3 + t5\<bar>"
  shows "\<bar>s4 - (X1 * W1 + X2 * W2 + X3 * W3 + X4 * W4 + X5 * W5)\<bar>
           \<le> ((1 + u) ^ 6 - 1)
               * (\<bar>X1\<bar> * \<bar>W1\<bar> + \<bar>X2\<bar> * \<bar>W2\<bar> + \<bar>X3\<bar> * \<bar>W3\<bar> + \<bar>X4\<bar> * \<bar>W4\<bar> + \<bar>X5\<bar> * \<bar>W5\<bar>)"
proof -
  have a: "\<bar>X * W\<bar> \<le> \<bar>X\<bar> * \<bar>W\<bar>" for X W :: real
    by (simp add: abs_mult)
  have p: "0 \<le> \<bar>X\<bar> * \<bar>W\<bar>" for X W :: real
    by simp
  note m1 = mul_error_bound [OF u w1 t1] and m2 = mul_error_bound [OF u w2 t2]
    and m3 = mul_error_bound [OF u w3 t3] and m4 = mul_error_bound [OF u w4 t4]
    and m5 = mul_error_bound [OF u w5 t5]
  note e1 = add_error_bound(1) [OF u m1 a m2 a s1] and b1 = add_error_bound(2) [OF u m1 a m2 a s1]
  have m3': "\<bar>t3 - X3 * W3\<bar> \<le> ((1 + u) ^ Suc 2 - 1) * (\<bar>X3\<bar> * \<bar>W3\<bar>)"
    by (rule error_level_mono [OF u _ p m3]) simp
  note e2 = add_error_bound(1) [OF u e1 b1 m3' a s2] and b2 = add_error_bound(2) [OF u e1 b1 m3' a s2]
  have m4': "\<bar>t4 - X4 * W4\<bar> \<le> ((1 + u) ^ Suc (Suc 2) - 1) * (\<bar>X4\<bar> * \<bar>W4\<bar>)"
    by (rule error_level_mono [OF u _ p m4]) simp
  note e3 = add_error_bound(1) [OF u e2 b2 m4' a s3] and b3 = add_error_bound(2) [OF u e2 b2 m4' a s3]
  have m5': "\<bar>t5 - X5 * W5\<bar> \<le> ((1 + u) ^ Suc (Suc (Suc 2)) - 1) * (\<bar>X5\<bar> * \<bar>W5\<bar>)"
    by (rule error_level_mono [OF u _ p m5]) simp
  note e4 = add_error_bound(1) [OF u e3 b3 m5' a s4]
  have "Suc (Suc (Suc (Suc 2))) = 6"
    by simp
  with e4 show ?thesis
    by (simp only:)
qed

lemma six_roundings: "(1 + unit_roundoff) ^ 6 - 1 \<le> 1 / 2 ^ 50"
  by (simp add: unit_roundoff_def power_divide)

section \<open>Years of experience\<close>

text \<open>
  Claim C4. \<open>score_experience_years\<close> scores 70 when the required years are \<open>None\<close>,
  50 when the required years are given and the candidate's are \<open>None\<close>, 70 when the
  required years are at most 0, and otherwise exactly
  \<open>100 * candidate_years / required_years\<close>, with no upper cap: 10 years against 5
  required score 200, and 2.5 years against 5 required score 50.
\<close>

theorem score_experience_years_cases:
  "yr_score (score_experience_years c None) = 70
   \<and> yr_score (score_experience_years None (Some r)) = 50
   \<and> (r \<le> 0 \<longrightarrow> yr_score (score_experience_years (Some y) (Some r)) = 70)
   \<and> (0 < r \<longrightarrow> yr_score (score_experience_years (Some y) (Some r)) = 100 * y / r)
   \<and> yr_score (score_experience_years (Some 10) (Some 5)) = 200
   \<and> yr_score (score_experience_years (Some 2.5) (Some 5)) = 50"
  by (simp add: score_experience_years_def Let_def)

theorem score_experience_years_cases_witness:
  "(0::real) \<le> 0 \<and> (0::real) < 4
   \<and> yr_score (score_experience_years (Some 3) (Some 0)) = 70
   \<and> yr_score (score_experience_years (Some 12) (Some 4)) = 300
   \<and> yr_score (score_experience_years None None) = 70
   \<and> yr_score (score_experience_years None (Some 4)) = 50"
  using score_experience_years_cases [of None 0 3]
        score_experience_years_cases [of None 4 12]
  by simp

section \<open>Overall fit score\<close>

text \<open>The weights and three runs, evaluated operation by operation.\<close>

lemma float_literals:
  "float_literal 30 2 = Double 5404319552844595 (- 54)"
  "float_literal 10 2 = Double 7205759403792794 (- 56)"
  "float_literal 15 2 = Double 5404319552844595 (- 55)"
  by (simp_all add: float_literal_def nearest_double_eqI [where k' = "54"]
        nearest_double_eqI [where k' = "55"] nearest_double_eqI [where k' = "56"]
        round_half_even_ratio_def)

lemma fit_80:
  "overall_fit_score (compute_overall_fit_score (Double 80 0) (Double 80 0) (Double 80 0)
      (Double 80 0) (Double 80 0)) = Double 5629499534213120 (- 46)"
proof -
  have t1: "float_mul (Double 80 0) (Double 5404319552844595 (- 54)) = Double 6755399441055744 (- 48)"
    by (simp add: float_mul_def ratio_def nearest_double_eqI [where k' = "48"] round_half_even_ratio_def)
  have t2: "float_mul (Double 80 0) (Double 7205759403792794 (- 56)) = Double 4503599627370496 (- 49)"
    by (simp add: float_mul_def ratio_def nearest_double_eqI [where k' = "49"] round_half_even_ratio_def)
  have t3: "float_mul (Double 80 0) (Double 5404319552844595 (- 54)) = Double 6755399441055744 (- 48)"
    by (simp add: float_mul_def ratio_def nearest_double_eqI [where k' = "48"] round_half_even_ratio_def)
  have t4: "float_mul (Double 80 0) (Double 5404319552844595 (- 55)) = Double 6755399441055744 (- 49)"
    by (simp add: float_mul_def ratio_def nearest_double_eqI [where k' = "49"] round_half_even_ratio_def)
  have t5: "float_mul (Double 80 0) (Double 5404319552844595 (- 55)) = Double 6755399441055744 (- 49)"
    by (simp add: float_mul_def ratio_def nearest_double_eqI [where k' = "49"] round_half_even_ratio_def)
  have s1: "float_add (Double 6755399441055744 (- 48)) (Double 4503599627370496 (- 49)) = Double 4503599627370496 (- 47)"
    by (simp add: float_add_def ratio_def nearest_double_eqI [where k' = "47"] round_half_even_ratio_def)
  have s2: "float_add (Double 4503599627370496 (- 47)) (Double 6755399441055744 (- 48)) = Double 7881299347898368 (- 47)"
    by (simp add: float_add_def ratio_def nearest_double_eqI [where k' = "47"] round_half_even_ratio_def)
  have s3: "float_add (Double 7881299347898368 (- 47)) (Double 6755399441055744 (- 49)) = Double 4785074604081152 (- 46)"
    by (simp add: float_add_def ratio_def nearest_double_eqI [where k' = "46"] round_half_even_ratio_def)
  have s4: "float_add (Double 4785074604081152 (- 46)) (Double 6755399441055744 (- 49)) = Double 5629499534213120 (- 46)"
    by (simp add: float_add_def ratio_def nearest_double_eqI [where k' = "46"] round_half_even_ratio_def)
  have r: "round_float (Double 5629499534213120 (- 46)) 2 = Double 5629499534213120 (- 46)"
    by (simp add: round_float_def ratio_def nearest_double_eqI [where k' = "46"] round_half_even_ratio_def)
  show ?thesis
    by (simp add: compute_overall_fit_score_def WEIGHTS_def float_literals t1 t2 t3 t4 t5
          s1 s2 s3 s4 r)
qed

lemma fit_112:
  "overall_fit_score (compute_overall_fit_score (Double 100 0) (Double 100 0) (Double 140 0)
      (Double 100 0) (Double 100 0)) = Double 7881299347898368 (- 46)"
proof -
  have t1: "float_mul (Double 100 0) (Double 5404319552844595 (- 54)) = Double 8444249301319680 (- 48)"
    by (simp add: float_mul_def ratio_def nearest_double_eqI [where k' = "48"] round_half_even_ratio_def)
  have t2: "float_mul (Double 100 0) (Double 7205759403792794 (- 56)) = Double 5629499534213120 (- 49)"
    by (simp add: float_mul_def ratio_def nearest_double_eqI [where k' = "49"] round_half_even_ratio_def)
  have t3: "float_mul (Double 140 0) (Double 5404319552844595 (- 54)) = Double 5910974510923776 (- 47)"
    by (simp add: float_mul_def ratio_def nearest_double_eqI [where k' = "47"] round_half_even_ratio_def)
  have t4: "float_mul (Double 100 0) (Double 5404319552844595 (- 55)) = Double 8444249301319680 (- 49)"
    by (simp add: float_mul_def ratio_def nearest_double_eqI [where k' = "49"] round_half_even_ratio_def)
  have t5: "float_mul (Double 100 0) (Double 5404319552844595 (- 55)) = Double 8444249301319680 (- 49)"
    by (simp add: float_mul_def ratio_def nearest_double_eqI [where k' = "49"] round_half_even_ratio_def)
  have s1: "float_add (Double 8444249301319680 (- 48)) (Double 5629499534213120 (- 49)) = Double 5629499534213120 (- 47)"
    by (simp add: float_add_def ratio_def nearest_double_eqI [where k' = "47"] round_half_even_ratio_def)
  have s2: "float_add (Double 5629499534213120 (- 47)) (Double 5910974510923776 (- 47)) = Double 5770237022568448 (- 46)"
    by (simp add: float_add_def ratio_def nearest_double_eqI [where k' = "46"] round_half_even_ratio_def)
  have s3: "float_add (Double 5770237022568448 (- 46)) (Double 8444249301319680 (- 49)) = Double 6825768185233408 (- 46)"
    by (simp add: float_add_def ratio_def nearest_double_eqI [where k' = "46"] round_half_even_ratio_def)
  have s4: "float_add (Double 6825768185233408 (- 46)) (Double 8444249301319680 (- 49)) = Double 7881299347898368 (- 46)"
    by (simp add: float_add_def ratio_def nearest_double_eqI [where k' = "46"] round_half_even_ratio_def)
  have r: "round_float (Double 7881299347898368 (- 46)) 2 = Double 7881299347898368 (- 46)"
    by (simp add: round_float_def ratio_def nearest_double_eqI [where k' = "46"] round_half_even_ratio_def)
  show ?thesis
    by (simp add: compute_overall_fit_score_def WEIGHTS_def float_literals t1 t2 t3 t4 t5
          s1 s2 s3 s4 r)
qed

lemma fit_5123:
  "overall_fit_score (compute_overall_fit_score (Double 60 0) (Double 60 0) (Double 60 0)
      (Double 3 (- 1)) (Double 60 0)) = Double 7209981528443453 (- 47)"
proof -
  have t1: "float_mul (Double 60 0) (Double 5404319552844595 (- 54)) = Double 5066549580791808 (- 48)"
    by (simp add: float_mul_def ratio_def nearest_double_eqI [where k' = "48"] round_half_even_ratio_def)
  have t2: "float_mul (Double 60 0) (Double 7205759403792794 (- 56)) = Double 6755399441055744 (- 50)"
    by (simp add: float_mul_def ratio_def nearest_double_eqI [where k' = "50"] round_half_even_ratio_def)
  have t3: "float_mul (Double 60 0) (Double 5404319552844595 (- 54)) = Double 5066549580791808 (- 48)"
    by (simp add: float_mul_def ratio_def nearest_double_eqI [where k' = "48"] round_half_even_ratio_def)
  have t4: "float_mul (Double 3 (- 1)) (Double 5404319552844595 (- 55)) = Double 8106479329266892 (- 55)"
    by (simp add: float_mul_def ratio_def nearest_double_eqI [where k' = "55"] round_half_even_ratio_def)
  have t5: "float_mul (Double 60 0) (Double 5404319552844595 (- 55)) = Double 5066549580791808 (- 49)"
    by (simp add: float_mul_def ratio_def nearest_double_eqI [where k' = "49"] round_half_even_ratio_def)
  have s1: "float_add (Double 5066549580791808 (- 48)) (Double 6755399441055744 (- 50)) = Double 6755399441055744 (- 48)"
    by (simp add: float_add_def ratio_def nearest_double_eqI [where k' = "48"] round_half_even_ratio_def)
  have s2: "float_add (Double 6755399441055744 (- 48)) (Double 5066549580791808 (- 48)) = Double 5910974510923776 (- 47)"
    by (simp add: float_add_def ratio_def nearest_double_eqI [where k' = "47"] round_half_even_ratio_def)
  have s3: "float_add (Double 5910974510923776 (- 47)) (Double 8106479329266892 (- 55)) = Double 5942640445803725 (- 47)"
    by (simp add: float_add_def ratio_def nearest_double_eqI [where k' = "47"] round_half_even_ratio_def)
  have s4: "float_add (Double 5942640445803725 (- 47)) (Double 5066549580791808 (- 49)) = Double 7209277841001677 (- 47)"
    by (simp add: float_add_def ratio_def nearest_double_eqI [where k' = "47"] round_half_even_ratio_def)
  have r: "round_float (Double 7209277841001677 (- 47)) 2 = Double 7209981528443453 (- 47)"
    by (simp add: round_float_def ratio_def nearest_double_eqI [where k' = "47"] round_half_even_ratio_def)
  show ?thesis
    by (simp add: compute_overall_fit_score_def WEIGHTS_def float_literals t1 t2 t3 t4 t5
          s1 s2 s3 s4 r)
qed

lemma float_literal_5123: "float_literal 5123 2 = Double 7209981528443453 (- 47)"
  by (simp add: float_literal_def nearest_double_eqI [where k' = "47"] round_half_even_ratio_def)

lemma fit_007:
  "overall_fit_score (compute_overall_fit_score (Double 0 0) (Double 0 0) (Double 0 0)
      (Double 1 (- 1)) (Double 0 0)) = Double 5044031582654956 (- 56)"
proof -
  have t1: "float_mul (Double 0 0) (Double 5404319552844595 (- 54)) = Double 0 0"
    by (simp add: float_mul_def ratio_def nearest_double_zero)
  have t2: "float_mul (Double 0 0) (Double 7205759403792794 (- 56)) = Double 0 0"
    by (simp add: float_mul_def ratio_def nearest_double_zero)
  have t3: "float_mul (Double 0 0) (Double 5404319552844595 (- 54)) = Double 0 0"
    by (simp add: float_mul_def ratio_def nearest_double_zero)
  have t4: "float_mul (Double 1 (- 1)) (Double 5404319552844595 (- 55)) = Double 5404319552844595 (- 56)"
    by (simp add: float_mul_def ratio_def nearest_double_eqI [where k' = "56"] round_half_even_ratio_def)
  have t5: "float_mul (Double 0 0) (Double 5404319552844595 (- 55)) = Double 0 0"
    by (simp add: float_mul_def ratio_def nearest_double_zero)
  have s1: "float_add (Double 0 0) (Double 0 0) = Double 0 0"
    by (simp add: float_add_def ratio_def nearest_double_zero)
  have s2: "float_add (Double 0 0) (Double 0 0) = Double 0 0"
    by (simp add: float_add_def ratio_def nearest_double_zero)
  have s3: "float_add (Double 0 0) (Double 5404319552844595 (- 56)) = Double 5404319552844595 (- 56)"
    by (simp add: float_add_def ratio_def nearest_double_eqI [where k' = "56"] round_half_even_ratio_def)
  have s4: "float_add (Double 5404319552844595 (- 56)) (Double 0 0) = Double 5404319552844595 (- 56)"
    by (simp add: float_add_def ratio_def nearest_double_eqI [where k' = "56"] round_half_even_ratio_def)
  have r: "round_float (Double 5404319552844595 (- 56)) 2 = Double 5044031582654956 (- 56)"
    by (simp add: round_float_def ratio_def nearest_double_eqI [where k' = "56"] round_half_even_ratio_def)
  show ?thesis
    by (simp add: compute_overall_fit_score_def WEIGHTS_def float_literals t1 t2 t3 t4 t5
          s1 s2 s3 s4 r)
qed

lemma float_literal_007: "float_literal 7 2 = Double 5044031582654956 (- 56)"
  by (simp add: float_literal_def nearest_double_eqI [where k' = "56"] round_half_even_ratio_def)

lemma weights_float_sum:
  "float_add (float_add (float_add (float_add (required_skills WEIGHTS) (prefered_skills WEIGHTS))
      (experience WEIGHTS)) (qualification WEIGHTS)) (seniority WEIGHTS)
     = Double 9007199254740992 (- 53)"
proof -
  have w1: "float_add (Double 5404319552844595 (- 54)) (Double 7205759403792794 (- 56)) = Double 7205759403792794 (- 54)"
    by (simp add: float_add_def ratio_def nearest_double_eqI [where k' = "54"] round_half_even_ratio_def)
  have w2: "float_add (Double 7205759403792794 (- 54)) (Double 5404319552844595 (- 54)) = Double 6305039478318694 (- 53)"
    by (simp add: float_add_def ratio_def nearest_double_eqI [where k' = "53"] round_half_even_ratio_def)
  have w3: "float_add (Double 6305039478318694 (- 53)) (Double 5404319552844595 (- 55)) = Double 7656119366529843 (- 53)"
    by (simp add: float_add_def ratio_def nearest_double_eqI [where k' = "53"] round_half_even_ratio_def)
  have w4: "float_add (Double 7656119366529843 (- 53)) (Double 5404319552844595 (- 55)) = Double 9007199254740992 (- 53)"
    by (simp add: float_add_def ratio_def nearest_double_eqI [where k' = "53"] round_half_even_ratio_def)
  show ?thesis
    by (simp add: WEIGHTS_def float_literals w1 w2 w3 w4)
qed

text \<open>
  The sum as \<open>compute_overall_fit_score\<close> computes it (five products and four sums, each
  rounded, on weights that are rounded decimal literals) against the weighted sum of
  the same scores in exact arithmetic.
\<close>

lemma float_weighted_sum_accuracy:
  "\<bar>valof (float_add (float_add (float_add (float_add
        (float_mul a (float_literal 30 2)) (float_mul b (float_literal 10 2)))
        (float_mul c (float_literal 30 2))) (float_mul d (float_literal 15 2)))
        (float_mul e (float_literal 15 2)))
     - (valof a * 0.30 + valof b * 0.10 + valof c * 0.30 + valof d * 0.15 + valof e * 0.15)\<bar>
   \<le> (\<bar>valof a\<bar> * 0.30 + \<bar>valof b\<bar> * 0.10 + \<bar>valof c\<bar> * 0.30 + \<bar>valof d\<bar> * 0.15
        + \<bar>valof e\<bar> * 0.15) / 2 ^ 50"
proof -
  let ?B = "\<bar>valof a\<bar> * \<bar>0.30\<bar> + \<bar>valof b\<bar> * \<bar>0.10\<bar> + \<bar>valof c\<bar> * \<bar>0.30\<bar>
            + \<bar>valof d\<bar> * \<bar>0.15\<bar> + \<bar>valof e\<bar> * \<bar>0.15 :: real\<bar>"
  note chain = weighted_sum_chain [OF unit_roundoff_nonneg
      float_literal_roundoff(1) float_literal_roundoff(2) float_literal_roundoff(1)
      float_literal_roundoff(3) float_literal_roundoff(3)
      float_mul_roundoff float_mul_roundoff float_mul_roundoff float_mul_roundoff
      float_mul_roundoff
      float_add_roundoff float_add_roundoff float_add_roundoff float_add_roundoff,
      of a b c d e]
  have B: "0 \<le> ?B"
    by simp
  have "((1 + unit_roundoff) ^ 6 - 1) * ?B \<le> (1 / 2 ^ 50) * ?B"
    using six_roundings B by (rule mult_right_mono)
  with chain show ?thesis
    by simp
qed

text \<open>
  Claim C7. \<open>compute_overall_fit_score\<close> computes, in double arithmetic and in the order
  of the source, the sum of the five component scores weighted by the literals 0.30,
  0.10, 0.30, 0.15 and 0.15 (which sum to 1.0), and returns it rounded to two decimals:
  the result is the double nearest to \<open>N / 100\<close> for an integer \<open>N\<close>, within the relative
  error \<open>2^-53\<close> of a double, and \<open>N / 100\<close> is within 0.005 (and the rounding error of the
  sum, at most \<open>2^-50\<close> of the weighted absolute scores) of the weighted sum taken exactly.
  Nothing is clamped, so components above 100 give an overall score above 100 (100, 100,
  140, 100, 100 give 112.0); all five components equal to 80 give 80.0. Where the exact
  sum is half-way between two decimals the doubles decide: 60, 60, 60, 1.5, 60 give the
  float 51.23 and 0, 0, 0, 0.5, 0 give the float 0.07.
\<close>

theorem compute_overall_fit_score_weighted_sum:
  "overall_fit_score (compute_overall_fit_score a b c d e)
     = round_float (float_add (float_add (float_add (float_add
          (float_mul a (float_literal 30 2)) (float_mul b (float_literal 10 2)))
          (float_mul c (float_literal 30 2))) (float_mul d (float_literal 15 2)))
          (float_mul e (float_literal 15 2))) 2
   \<and> (\<exists>N. overall_fit_score (compute_overall_fit_score a b c d e) = nearest_double N 100
          \<and> \<bar>valof (overall_fit_score (compute_overall_fit_score a b c d e)) - of_int N / 100\<bar>
               \<le> \<bar>of_int N / 100\<bar> / 2 ^ 53
          \<and> \<bar>of_int N / 100
               - (valof a * 0.30 + valof b * 0.10 + valof c * 0.30 + valof d * 0.15
                  + valof e * 0.15)\<bar>
               \<le> 1 / 200
                  + (\<bar>valof a\<bar> * 0.30 + \<bar>valof b\<bar> * 0.10 + \<bar>valof c\<bar> * 0.30
                     + \<bar>valof d\<bar> * 0.15 + \<bar>valof e\<bar> * 0.15) / 2 ^ 50)
   \<and> valof (float_add (float_add (float_add (float_add (required_skills WEIGHTS)
          (prefered_skills WEIGHTS)) (experience WEIGHTS)) (qualification WEIGHTS))
          (seniority WEIGHTS)) = 1
   \<and> valof (overall_fit_score (compute_overall_fit_score (Double 80 0) (Double 80 0)
          (Double 80 0) (Double 80 0) (Double 80 0))) = 80
   \<and> valof (overall_fit_score (compute_overall_fit_score (Double 100 0) (Double 100 0)
          (Double 140 0) (Double 100 0) (Double 100 0))) = 112
   \<and> 100 < valof (overall_fit_score (compute_overall_fit_score (Double 100 0) (Double 100 0)
          (Double 140 0) (Double 100 0) (Double 100 0)))
   \<and> overall_fit_score (compute_overall_fit_score (Double 60 0) (Double 60 0) (Double 60 0)
          (Double 3 (- 1)) (Double 60 0)) = float_literal 5123 2
   \<and> overall_fit_score (compute_overall_fit_score (Double 0 0) (Double 0 0) (Double 0 0)
          (Double 1 (- 1)) (Double 0 0)) = float_literal 7 2"
proof -
  let ?s = "float_add (float_add (float_add (float_add
          (float_mul a (float_literal 30 2)) (float_mul b (float_literal 10 2)))
          (float_mul c (float_literal 30 2))) (float_mul d (float_literal 15 2)))
          (float_mul e (float_literal 15 2))"
  let ?S = "valof a * 0.30 + valof b * 0.10 + valof c * 0.30 + valof d * 0.15 + valof e * 0.15"
  let ?B = "\<bar>valof a\<bar> * 0.30 + \<bar>valof b\<bar> * 0.10 + \<bar>valof c\<bar> * 0.30 + \<bar>valof d\<bar> * 0.15
            + \<bar>valof e\<bar> * 0.15"
  have def: "overall_fit_score (compute_overall_fit_score a b c d e) = round_float ?s 2"
    by (simp add: compute_overall_fit_score_def WEIGHTS_def Let_def)
  from round_float_2 [of ?s] obtain N where
    N: "round_float ?s 2 = nearest_double N 100"
      "\<bar>valof ?s - of_int N / 100\<bar> \<le> 1 / 200"
      "\<bar>valof (round_float ?s 2) - of_int N / 100\<bar> \<le> \<bar>of_int N / 100\<bar> / 2 ^ 53"
    by blast
  have acc: "\<bar>valof ?s - ?S\<bar> \<le> ?B / 2 ^ 50"
    by (rule float_weighted_sum_accuracy)
  have tri: "\<bar>of_int N / 100 - ?S\<bar> \<le> \<bar>valof ?s - of_int N / 100\<bar> + \<bar>valof ?s - ?S\<bar>"
    by simp
  have near: "\<bar>of_int N / 100 - ?S\<bar> \<le> 1 / 200 + ?B / 2 ^ 50"
    by (rule order_trans [OF tri add_mono [OF N(2) acc]])
  have rounded: "\<exists>N. overall_fit_score (compute_overall_fit_score a b c d e) = nearest_double N 100
          \<and> \<bar>valof (overall_fit_score (compute_overall_fit_score a b c d e)) - of_int N / 100\<bar>
               \<le> \<bar>of_int N / 100\<bar> / 2 ^ 53
          \<and> \<bar>of_int N / 100 - ?S\<bar> \<le> 1 / 200 + ?B / 2 ^ 50"
    unfolding def using N(1,3) near by blast
  have weights: "valof (float_add (float_add (float_add (float_add (required_skills WEIGHTS)
          (prefered_skills WEIGHTS)) (experience WEIGHTS)) (qualification WEIGHTS))
          (seniority WEIGHTS)) = 1"
    by (simp add: weights_float_sum valof_def)
  have eighty: "valof (overall_fit_score (compute_overall_fit_score (Double 80 0) (Double 80 0)
          (Double 80 0) (Double 80 0) (Double 80 0))) = 80"
    by (simp add: fit_80 valof_def)
  have over: "valof (overall_fit_score (compute_overall_fit_score (Double 100 0) (Double 100 0)
          (Double 140 0) (Double 100 0) (Double 100 0))) = 112"
    by (simp add: fit_112 valof_def)
  have mid: "overall_fit_score (compute_overall_fit_score (Double 60 0) (Double 60 0) (Double 60 0)
          (Double 3 (- 1)) (Double 60 0)) = float_literal 5123 2"
    by (simp only: fit_5123 float_literal_5123)
  have low: "overall_fit_score (compute_overall_fit_score (Double 0 0) (Double 0 0) (Double 0 0)
          (Double 1 (- 1)) (Double 0 0)) = float_literal 7 2"
    by (simp only: fit_007 float_literal_007)
  show ?thesis
    apply (intro conjI)
           apply (rule def)
          apply (rule rounded)
         apply (rule weights)
        apply (rule eighty)
       apply (rule over)
      apply (simp add: over)
     apply (rule mid)
    apply (rule low)
    done
qed

section \<open>First maximum of a row\<close>

lemma argmax_scan_spec:
  "length pre = i \<Longrightarrow> best_i < i \<Longrightarrow> pre ! best_i = best_v \<Longrightarrow>
   \<forall>j<i. pre ! j \<le> best_v \<Longrightarrow> \<forall>j<best_i. pre ! j < best_v \<Longrightarrow>
   argmax_scan xs i best_i best_v < length (pre @ xs)
   \<and> (\<forall>j<length (pre @ xs). (pre @ xs) ! j \<le> (pre @ xs) ! argmax_scan xs i best_i best_v)
   \<and> (\<forall>j<argmax_scan xs i best_i best_v. (pre @ xs) ! j < (pre @ xs) ! argmax_scan xs i best_i best_v)"
proof (induction xs arbitrary: pre i best_i best_v)
  case Nil
  then show ?case by auto
next
  case (Cons x xs)
  let ?pre = "pre @ [x]"
  show ?case
  proof (cases "best_v < x")
    case True
    have "argmax_scan xs (Suc i) i x < length (?pre @ xs)
      \<and> (\<forall>j<length (?pre @ xs). (?pre @ xs) ! j \<le> (?pre @ xs) ! argmax_scan xs (Suc i) i x)
      \<and> (\<forall>j<argmax_scan xs (Suc i) i x. (?pre @ xs) ! j < (?pre @ xs) ! argmax_scan xs (Suc i) i x)"
    proof (rule Cons.IH)
      show "length ?pre = Suc i" using Cons.prems by simp
      show "i < Suc i" by simp
      show "?pre ! i = x" using Cons.prems(1) by (auto simp: nth_append)
      show "\<forall>j<Suc i. ?pre ! j \<le> x"
        using Cons.prems True by (auto simp: nth_append less_Suc_eq intro: less_imp_le order_trans)
      show "\<forall>j<i. ?pre ! j < x"
        using Cons.prems True by (auto simp: nth_append intro: le_less_trans)
    qed
    with True show ?thesis by simp
  next
    case False
    have "argmax_scan xs (Suc i) best_i best_v < length (?pre @ xs)
      \<and> (\<forall>j<length (?pre @ xs). (?pre @ xs) ! j \<le> (?pre @ xs) ! argmax_scan xs (Suc i) best_i best_v)
      \<and> (\<forall>j<argmax_scan xs (Suc i) best_i best_v. (?pre @ xs) ! j < (?pre @ xs) ! argmax_scan xs (Suc i) best_i best_v)"
    proof (rule Cons.IH)
      show "length ?pre = Suc i" using Cons.prems by simp
      show "best_i < Suc i" using Cons.prems by simp
      show "?pre ! best_i = best_v" using Cons.prems by (simp add: nth_append)
      show "\<forall>j<Suc i. ?pre ! j \<le> best_v"
        using Cons.prems False by (auto simp: nth_append less_Suc_eq)
      show "\<forall>j<best_i. ?pre ! j < best_v"
        using Cons.prems by (auto simp: nth_append)
    qed
    with False show ?thesis by simp
  qed
qed

lemma np_argmax_spec:
  assumes "sims \<noteq> []"
  shows "\<exists>i. np_argmax sims = Inr i \<and> i < length sims
           \<and> (\<forall>j<length sims. sims ! j \<le> sims ! i) \<and> (\<forall>j<i. sims ! j < sims ! i)"
proof -
  from assms obtain x xs where sims: "sims = x # xs"
    by (cases sims) auto
  have "argmax_scan xs 1 0 x < length ([x] @ xs)
   \<and> (\<forall>j<length ([x] @ xs). ([x] @ xs) ! j \<le> ([x] @ xs) ! argmax_scan xs 1 0 x)
   \<and> (\<forall>j<argmax_scan xs 1 0 x. ([x] @ xs) ! j < ([x] @ xs) ! argmax_scan xs 1 0 x)"
    by (rule argmax_scan_spec) auto
  then show ?thesis
    by (simp add: sims np_argmax_def)
qed

lemma nth_is_Max:
  assumes "i < length (sims::real list)" "\<forall>j<length sims. sims ! j \<le> sims ! i"
  shows "sims ! i = Max (set sims)"
proof -
  have "Max (set sims) = sims ! i"
  proof (rule Max_eqI)
    show "finite (set sims)" by simp
    show "sims ! i \<in> set sims" using assms(1) by simp
    fix y assume "y \<in> set sims"
    then obtain j where "j < length sims" "y = sims ! j"
      by (auto simp: in_set_conv_nth)
    with assms(2) show "y \<le> sims ! i" by simp
  qed
  then show ?thesis by simp
qed

section \<open>Skill matching\<close>

lemma evaluate_single_skill_lexical:
  "norm_text js \<in> set (map norm_text cs) \<Longrightarrow>
   evaluate_single_skill p js cs =
     Inr \<lparr> sr_job_skill = js, sr_best_candidate_skill = js,
           sr_classification = ''match'', sr_similarity = 1 \<rparr>"
  by (simp add: evaluate_single_skill_def Let_def)

lemma evaluate_single_skill_semantic:
  assumes nin: "norm_text js \<notin> set (map norm_text cs)"
    and p: "p (norm_text js) (map norm_text cs) = Inr sims"
    and ne: "sims \<noteq> []"
    and len: "length sims = length cs"
  shows "\<exists>i r. evaluate_single_skill p js cs = Inr r
           \<and> i < length cs \<and> sims ! i = Max (set sims) \<and> (\<forall>j<i. sims ! j < sims ! i)
           \<and> sr_job_skill r = js \<and> sr_best_candidate_skill r = cs ! i
           \<and> (0.80 \<le> Max (set sims) \<longrightarrow>
                 sr_classification r = ''match'' \<and> sr_similarity r = Max (set sims))
           \<and> (0.50 < Max (set sims) \<and> Max (set sims) < 0.80 \<longrightarrow>
                 sr_classification r = ''transferable'' \<and> sr_similarity r = Max (set sims))
           \<and> (Max (set sims) \<le> 0.50 \<longrightarrow>
                 sr_classification r = ''missing'' \<and> sr_similarity r = 0)"
proof -
  from np_argmax_spec [OF ne] obtain i where
    am: "np_argmax sims = Inr i" and i: "i < length sims"
    and mx: "\<forall>j<length sims. sims ! j \<le> sims ! i" and first: "\<forall>j<i. sims ! j < sims ! i"
    by blast
  have s: "sims ! i = Max (set sims)"
    using i mx by (rule nth_is_Max)
  have idx: "py_index cs i = Inr (cs ! i)"
    using i len by (simp add: py_index_def)
  let ?s = "Max (set sims)"
  let ?r = "if 0.80 \<le> ?s
            then \<lparr> sr_job_skill = js, sr_best_candidate_skill = cs ! i,
                   sr_classification = ''match'', sr_similarity = ?s \<rparr>
            else if 0.50 < ?s \<and> ?s < 0.80
            then \<lparr> sr_job_skill = js, sr_best_candidate_skill = cs ! i,
                   sr_classification = ''transferable'', sr_similarity = ?s \<rparr>
            else \<lparr> sr_job_skill = js, sr_best_candidate_skill = cs ! i,
                   sr_classification = ''missing'', sr_similarity = 0 \<rparr>"
  have ev: "evaluate_single_skill p js cs = Inr ?r"
    using nin p am idx s
    by (simp add: evaluate_single_skill_def Let_def THRESHOLDS_def)
  have "i < length cs" using i len by simp
  moreover have "sr_job_skill ?r = js" "sr_best_candidate_skill ?r = cs ! i"
    by simp_all
  moreover have "0.80 \<le> ?s \<longrightarrow> sr_classification ?r = ''match'' \<and> sr_similarity ?r = ?s"
    by simp
  moreover have "0.50 < ?s \<and> ?s < 0.80 \<longrightarrow>
      sr_classification ?r = ''transferable'' \<and> sr_similarity ?r = ?s"
    by simp
  moreover have "?s \<le> 0.50 \<longrightarrow> sr_classification ?r = ''missing'' \<and> sr_similarity ?r = 0"
    by simp
  ultimately show ?thesis
    using ev s first by blast
qed

text \<open>
  Claim C1. For every call of \<open>evaluate_single_skill\<close>: when the normalised job skill
  equals some normalised candidate skill, the result is \<open>match\<close> with similarity 1,
  whatever the embedding provider does. Otherwise, with \<open>s\<close> the maximum of the
  similarities the provider returns and the first position holding it selected,
  \<open>s \<ge> 0.80\<close> gives \<open>match\<close> with similarity \<open>s\<close>, \<open>0.50 < s < 0.80\<close> gives
  \<open>transferable\<close> with similarity \<open>s\<close>, and \<open>s \<le> 0.50\<close> gives \<open>missing\<close> with reported
  similarity 0.
\<close>

theorem evaluate_single_skill_classification:
  "(norm_text js \<in> set (map norm_text cs) \<longrightarrow>
      evaluate_single_skill p js cs =
        Inr \<lparr> sr_job_skill = js, sr_best_candidate_skill = js,
              sr_classification = ''match'', sr_similarity = 1 \<rparr>)
   \<and> (norm_text js \<notin> set (map norm_text cs)
        \<and> p (norm_text js) (map norm_text cs) = Inr sims
        \<and> sims \<noteq> [] \<and> length sims = length cs \<longrightarrow>
      (\<exists>i r. evaluate_single_skill p js cs = Inr r
           \<and> i < length cs \<and> sims ! i = Max (set sims) \<and> (\<forall>j<i. sims ! j < sims ! i)
           \<and> sr_job_skill r = js \<and> sr_best_candidate_skill r = cs ! i
           \<and> (0.80 \<le> Max (set sims) \<longrightarrow>
                 sr_classification r = ''match'' \<and> sr_similarity r = Max (set sims))
           \<and> (0.50 < Max (set sims) \<and> Max (set sims) < 0.80 \<longrightarrow>
                 sr_classification r = ''transferable'' \<and> sr_similarity r = Max (set sims))
           \<and> (Max (set sims) \<le> 0.50 \<longrightarrow>
                 sr_classification r = ''missing'' \<and> sr_similarity r = 0)))"
  using evaluate_single_skill_lexical [of js cs p]
        evaluate_single_skill_semantic [of js cs p sims]
  by blast

lemma norm_examples:
  "norm_text ''SQL'' = ''sql''"
  "norm_text '' Python  3 '' = ''python 3''"
  "norm_text ''python 3'' = ''python 3''"
  "norm_text ''Postgres'' = ''postgres''"
  "norm_text ''MySQL'' = ''mysql''"
  "norm_text ''Excel'' = ''excel''"
  by code_simp+

theorem evaluate_single_skill_classification_witness:
  "evaluate_single_skill (\<lambda>q c. Inl (Raised ''provider down'')) '' Python  3 '' [''SQL'', ''python 3'']
     = Inr \<lparr> sr_job_skill = '' Python  3 '', sr_best_candidate_skill = '' Python  3 '',
             sr_classification = ''match'', sr_similarity = 1 \<rparr>
   \<and> (\<exists>r. evaluate_single_skill (\<lambda>q c. Inr [0.5, 0.8, 0.8]) ''SQL'' [''Excel'', ''Postgres'', ''MySQL''] = Inr r
          \<and> sr_best_candidate_skill r = ''Postgres''
          \<and> sr_classification r = ''match'' \<and> sr_similarity r = 0.8)"
proof -
  have lex: "norm_text '' Python  3 '' \<in> set (map norm_text [''SQL'', ''python 3''])"
    by (simp add: norm_examples)
  have sem: "norm_text ''SQL'' \<notin> set (map norm_text [''Excel'', ''Postgres'', ''MySQL''])
        \<and> (\<lambda>q c. Inr [0.5, 0.8, 0.8]) (norm_text ''SQL'') (map norm_text [''Excel'', ''Postgres'', ''MySQL''])
            = Inr [0.5, 0.8, 0.8]
        \<and> [0.5, 0.8, 0.8 :: real] \<noteq> []
        \<and> length [0.5, 0.8, 0.8 :: real] = length [''Excel'', ''Postgres'', ''MySQL'']"
    by (simp add: norm_examples)
  have mx: "Max (set [0.5, 0.8, 0.8 :: real]) = 0.8"
    by simp
  from evaluate_single_skill_classification
         [of "'' Python  3 ''" "[''SQL'', ''python 3'']" "\<lambda>q c. Inl (Raised ''provider down'')" "[]"]
       lex
  have a: "evaluate_single_skill (\<lambda>q c. Inl (Raised ''provider down'')) '' Python  3 '' [''SQL'', ''python 3'']
     = Inr \<lparr> sr_job_skill = '' Python  3 '', sr_best_candidate_skill = '' Python  3 '',
             sr_classification = ''match'', sr_similarity = 1 \<rparr>"
    by blast
  from evaluate_single_skill_classification
         [of "''SQL''" "[''Excel'', ''Postgres'', ''MySQL'']"
          "\<lambda>q c. Inr [0.5, 0.8, 0.8]" "[0.5, 0.8, 0.8]"]
       sem
  obtain i r where r: "evaluate_single_skill (\<lambda>q c. Inr [0.5, 0.8, 0.8]) ''SQL'' [''Excel'', ''Postgres'', ''MySQL''] = Inr r"
    and i: "i < length [''Excel'', ''Postgres'', ''MySQL'']"
    and s: "[0.5, 0.8, 0.8 :: real] ! i = Max (set [0.5, 0.8, 0.8])"
    and first: "\<forall>j<i. [0.5, 0.8, 0.8 :: real] ! j < [0.5, 0.8, 0.8] ! i"
    and best: "sr_best_candidate_skill r = [''Excel'', ''Postgres'', ''MySQL''] ! i"
    and cls: "0.80 \<le> Max (set [0.5, 0.8, 0.8 :: real]) \<longrightarrow>
                 sr_classification r = ''match'' \<and> sr_similarity r = Max (set [0.5, 0.8, 0.8])"
    by blast
  from i have "i = 0 \<or> i = 1 \<or> i = 2"
    by auto
  moreover have "i \<noteq> 0"
  proof
    assume "i = 0"
    with s mx show False by simp
  qed
  moreover have "i \<noteq> 2"
  proof
    assume i2: "i = 2"
    then have "1 < i" by simp
    with first have "[0.5, 0.8, 0.8 :: real] ! 1 < [0.5, 0.8, 0.8] ! i"
      by blast
    with i2 show False by simp
  qed
  ultimately have "i = 1"
    by blast
  with best cls mx have "sr_best_candidate_skill r = ''Postgres''
      \<and> sr_classification r = ''match'' \<and> sr_similarity r = 0.8"
    by simp
  with a r show ?thesis
    by blast
qed

lemma strip_examples:
  "strip '' '' = []"
  "strip ''backend'' = ''backend''"
  by code_simp+

section \<open>Kind of experience\<close>

text \<open>
  Claim C10. \<open>score_experience_kind\<close> never propagates an exception: whatever is raised
  inside its \<open>try\<close> block is caught, and the function then returns \<open>None\<close> instead of the
  score dictionary. That covers an empty or blank \<open>required_kind\<close> with an empty
  candidate list (element 0 of the empty list is read) and any failure of the embedding
  provider.
\<close>

theorem score_experience_kind_returns_None_on_error:
  "(\<exists>r. score_experience_kind p rk cs = Inr r)
   \<and> (score_experience_kind_try p rk cs = Inl e \<longrightarrow> score_experience_kind p rk cs = Inr None)
   \<and> (rk = None \<or> rk = Some [] \<or> strip (the rk) = [] \<longrightarrow>
         score_experience_kind_try p rk [] = Inl IndexError
         \<and> score_experience_kind p rk [] = Inr None)
   \<and> (rk = Some k \<and> strip k \<noteq> [] \<and> cs \<noteq> [] \<and> k \<notin> set cs
        \<and> p (norm_text k) (map norm_text cs) = Inl e \<longrightarrow>
         score_experience_kind p rk cs = Inr None)"
proof -
  have total: "\<exists>r. score_experience_kind p rk cs = Inr r"
    by (cases "score_experience_kind_try p rk cs") (simp_all add: score_experience_kind_def)
  have caught: "score_experience_kind_try p rk cs = Inl e \<longrightarrow> score_experience_kind p rk cs = Inr None"
    by (simp add: score_experience_kind_def)
  have empty: "rk = None \<or> rk = Some [] \<or> strip (the rk) = [] \<longrightarrow>
         score_experience_kind_try p rk [] = Inl IndexError
         \<and> score_experience_kind p rk [] = Inr None"
    by (auto simp: score_experience_kind_def score_experience_kind_try_def py_index_def)
  have provider: "rk = Some k \<and> strip k \<noteq> [] \<and> cs \<noteq> [] \<and> k \<notin> set cs
        \<and> p (norm_text k) (map norm_text cs) = Inl e \<longrightarrow>
         score_experience_kind p rk cs = Inr None"
    by (auto simp: score_experience_kind_def score_experience_kind_try_def Let_def strip_def)
  from total caught empty provider show ?thesis
    by blast
qed

theorem score_experience_kind_returns_None_on_error_witness:
  "score_experience_kind (\<lambda>q c. Inr [1]) (Some '' '') [] = Inr None
   \<and> score_experience_kind_try (\<lambda>q c. Inr [1]) (Some '' '') [] = Inl IndexError
   \<and> score_experience_kind (\<lambda>q c. Inl (Raised ''provider down'')) (Some ''backend'') [''sales'']
       = Inr None"
proof -
  have h1: "Some '' '' = None \<or> Some '' '' = Some [] \<or> strip (the (Some '' '')) = []"
    by (simp add: strip_examples)
  have h2: "Some ''backend'' = Some ''backend'' \<and> strip ''backend'' \<noteq> [] \<and> [''sales''] \<noteq> []
        \<and> ''backend'' \<notin> set [''sales'']
        \<and> (\<lambda>q c. Inl (Raised ''provider down'')) (norm_text ''backend'') (map norm_text [''sales''])
            = (Inl (Raised ''provider down'') :: exn + real list)"
    by (simp add: strip_examples)
  from score_experience_kind_returns_None_on_error
         [of "\<lambda>q c. Inr [1]" "Some '' ''" "[]" IndexError "[]"] h1
  have a: "score_experience_kind_try (\<lambda>q c. Inr [1]) (Some '' '') [] = Inl IndexError
         \<and> score_experience_kind (\<lambda>q c. Inr [1]) (Some '' '') [] = Inr None"
    by blast
  from score_experience_kind_returns_None_on_error
         [of "\<lambda>q c. Inl (Raised ''provider down'')" "Some ''backend''" "[''sales'']"
             "Raised ''provider down''" "''backend''"] h2
  have b: "score_experience_kind (\<lambda>q c. Inl (Raised ''provider down'')) (Some ''backend'') [''sales'']
       = Inr None"
    by blast
  from a b show ?thesis by blast
qed

section \<open>Education and qualification\<close>

text \<open>
  Claim C8, at the input where it fails. With no requirement (\<open>None\<close> or the empty
  string) the function reads element 0 of the candidate list before it tests whether
  the list is empty, so on an empty list it raises \<open>IndexError\<close> and yields no score,
  where the claim gives 70.
\<close>

theorem score_education_and_qualification_no_requirement_empty_list:
  "score_education_and_qualification p None [] kind = Inl IndexError
   \<and> score_education_and_qualification p (Some []) [] kind = Inl IndexError"
  by (simp add: score_education_and_qualification_def py_index_def)

text \<open>The other cases of the function behave as claim C8 describes.\<close>

lemma score_education_and_qualification_early_returns:
  "(req = None \<or> req = Some []) \<and> cs \<noteq> [] \<longrightarrow>
     (\<exists>r. score_education_and_qualification p req cs kind = Inr r
          \<and> qr_score r = 70 \<and> qr_best_candidate_match r = Some (hd cs))"
  "req = Some q \<and> q \<noteq> [] \<longrightarrow>
     (\<exists>r. score_education_and_qualification p req [] kind = Inr r
          \<and> qr_score r = 50 \<and> qr_best_candidate_match r = None)"
  "req = Some q \<and> q \<noteq> [] \<and> norm_text q \<in> set (map norm_text cs) \<longrightarrow>
     (\<exists>r. score_education_and_qualification p req cs kind = Inr r \<and> qr_score r = 100)"
  by (auto simp: score_education_and_qualification_def py_index_def Let_def hd_conv_nth)

lemma score_education_and_qualification_semantic:
  assumes req: "req = Some q" "q \<noteq> []"
    and nin: "norm_text q \<notin> set (map norm_text cs)"
    and p: "p (norm_text q) (map norm_text cs) = Inr sims"
    and ne: "sims \<noteq> []"
    and len: "length sims = length cs"
  shows "\<exists>i r. score_education_and_qualification p req cs kind = Inr r
           \<and> i < length cs \<and> sims ! i = Max (set sims) \<and> (\<forall>j<i. sims ! j < sims ! i)
           \<and> qr_best_candidate_match r = Some (cs ! i)
           \<and> (0.80 \<le> Max (set sims) \<longrightarrow> qr_score r = 100)
           \<and> (0.50 < Max (set sims) \<and> Max (set sims) < 0.80 \<longrightarrow> qr_score r = 70)
           \<and> (Max (set sims) \<le> 0.50 \<longrightarrow> qr_score r = 0)"
proof -
  from np_argmax_spec [OF ne] obtain i where
    am: "np_argmax sims = Inr i" and i: "i < length sims"
    and mx: "\<forall>j<length sims. sims ! j \<le> sims ! i" and first: "\<forall>j<i. sims ! j < sims ! i"
    by blast
  have s: "sims ! i = Max (set sims)"
    using i mx by (rule nth_is_Max)
  have idx: "py_index cs i = Inr (cs ! i)"
    using i len by (simp add: py_index_def)
  have cs: "cs \<noteq> []"
    using ne len by auto
  let ?s = "Max (set sims)"
  let ?key = "kind @ ''_required''"
  let ?r = "if 0.80 \<le> ?s
            then \<lparr> qr_required_key = ?key, qr_required = req,
                   qr_best_candidate_match = Some (cs ! i), qr_score = 100,
                   qr_note = ''Candidate meets requirement.'' \<rparr>
            else if 0.50 < ?s \<and> ?s < 0.80
            then \<lparr> qr_required_key = ?key, qr_required = req,
                   qr_best_candidate_match = Some (cs ! i), qr_score = 70,
                   qr_note = ''Candidate partially meets requirement.'' \<rparr>
            else \<lparr> qr_required_key = ?key, qr_required = req,
                   qr_best_candidate_match = Some (cs ! i), qr_score = 0,
                   qr_note = ''Candidate does not meet requirement.'' \<rparr>"
  have ev: "score_education_and_qualification p req cs kind = Inr ?r"
    using req nin p am idx s cs
    by (simp add: score_education_and_qualification_def Let_def THRESHOLDS_def)
  have "i < length cs" using i len by simp
  moreover have "qr_best_candidate_match ?r = Some (cs ! i)"
    by simp
  moreover have "0.80 \<le> ?s \<longrightarrow> qr_score ?r = 100"
    by simp
  moreover have "0.50 < ?s \<and> ?s < 0.80 \<longrightarrow> qr_score ?r = 70"
    by simp
  moreover have "?s \<le> 0.50 \<longrightarrow> qr_score ?r = 0"
    by simp
  ultimately show ?thesis
    using ev s first by blast
qed


section \<open>Redaction\<close>

lemma overlaps_sym: "overlaps a b = overlaps b a"
  by (auto simp: overlaps_def)

lemma non_overlapping_pair:
  "non_overlapping es \<Longrightarrow> a \<in> set es \<Longrightarrow> b \<in> set es \<Longrightarrow> a \<noteq> b \<Longrightarrow> \<not> overlaps a b"
proof (induction es)
  case Nil
  then show ?case by simp
next
  case (Cons e es)
  then show ?case
    using overlaps_sym by (auto simp: list_all_iff)
qed

lemma start_char_inj:
  assumes "non_overlapping es" "\<forall>e\<in>set es. well_formed text e"
  shows "inj_on start_char (set es)"
proof (rule inj_onI)
  fix a b assume ab: "a \<in> set es" "b \<in> set es" "start_char a = start_char b"
  show "a = b"
  proof (rule ccontr)
    assume "a \<noteq> b"
    with assms(1) ab have "\<not> overlaps a b"
      by (simp add: non_overlapping_pair)
    moreover from assms(2) ab have "start_char a < end_char a" "start_char b < end_char b"
      by (auto simp: well_formed_def)
    ultimately show False
      using ab(3) by (simp add: overlaps_def)
  qed
qed

lemma non_overlapping_distinct:
  assumes "non_overlapping es" "\<forall>e\<in>set es. well_formed text e"
  shows "distinct es"
  using assms
proof (induction es)
  case Nil
  then show ?case by simp
next
  case (Cons e es)
  have "e \<notin> set es"
  proof
    assume "e \<in> set es"
    with Cons.prems(1) have "\<not> overlaps e e"
      by (simp add: list_all_iff)
    moreover from Cons.prems(2) have "start_char e < end_char e"
      by (simp add: well_formed_def)
    ultimately show False
      by (simp add: overlaps_def)
  qed
  with Cons show ?case by simp
qed

lemma non_overlapping_perm:
  assumes "mset es' = mset es" "non_overlapping es" "\<forall>e\<in>set es. well_formed text e"
  shows "non_overlapping es'"
proof -
  have set: "set es' = set es"
    using assms(1) by (rule mset_eq_setD)
  have "distinct es"
    using assms(2,3) by (rule non_overlapping_distinct)
  then have d: "distinct es'"
    using mset_eq_imp_distinct_iff [OF assms(1)] by simp
  have pair: "\<And>a b. a \<in> set es' \<Longrightarrow> b \<in> set es' \<Longrightarrow> a \<noteq> b \<Longrightarrow> \<not> overlaps a b"
    using assms(2) set by (simp add: non_overlapping_pair)
  show ?thesis
    using d pair
  proof (induction es')
    case Nil
    then show ?case by simp
  next
    case (Cons e es')
    then show ?case by (auto simp: list_all_iff)
  qed
qed

lemma descending_is_rev_ascending:
  assumes "inj_on start_char (set es)"
  shows "sort_key (\<lambda>e. - int (start_char e)) es = rev (sort_key start_char es)"
proof (rule sort_key_inj_key_eq)
  show "mset es = mset (rev (sort_key start_char es))"
    by simp
  show "inj_on (\<lambda>e. - int (start_char e)) (set es)"
    using assms by (auto simp: inj_on_def)
  have "sorted (map start_char (sort_key start_char es))"
    by simp
  then have "sorted_wrt (\<lambda>a b. start_char a \<le> start_char b) (sort_key start_char es)"
    by (simp add: sorted_wrt_map)
  then have "sorted_wrt (\<lambda>a b. - int (start_char b) \<le> - int (start_char a)) (sort_key start_char es)"
    by simp
  then show "sorted (map (\<lambda>e. - int (start_char e)) (rev (sort_key start_char es)))"
    by (simp add: sorted_wrt_map sorted_wrt_rev)
qed

lemma foldr_splice_ascending:
  assumes "sorted (map start_char es)" "non_overlapping es" "\<forall>e\<in>set es. well_formed text e"
    and "\<forall>e\<in>set es. n \<le> start_char e" "n \<le> length text"
  shows "foldr splice es text = take n text @ substitute_from n text es"
  using assms
proof (induction es arbitrary: n)
  case Nil
  then show ?case by simp
next
  case (Cons e es)
  have wf: "start_char e < end_char e" "end_char e \<le> length text"
    using Cons.prems(3) by (simp_all add: well_formed_def)
  have n: "n \<le> start_char e"
    using Cons.prems(4) by simp
  have after: "\<forall>e'\<in>set es. end_char e \<le> start_char e'"
  proof
    fix e' assume e': "e' \<in> set es"
    with Cons.prems(1) have le: "start_char e \<le> start_char e'"
      by simp
    from e' Cons.prems(2) have no: "\<not> overlaps e e'"
      by (simp add: list_all_iff)
    from e' Cons.prems(3) have "start_char e' < end_char e'"
      by (simp add: well_formed_def)
    with le no show "end_char e \<le> start_char e'"
      by (simp add: overlaps_def)
  qed
  have IH: "foldr splice es text = take (end_char e) text @ substitute_from (end_char e) text es"
    using Cons.prems(1,2,3) after wf(2) by (intro Cons.IH) simp_all
  have len: "length (take (end_char e) text) = end_char e"
    using wf(2) by simp
  have "foldr splice (e # es) text = splice e (foldr splice es text)"
    by simp
  also have "\<dots> = take (start_char e) text @ replacement e @ substitute_from (end_char e) text es"
    using wf len by (simp add: IH splice_def min_def)
  also have "take (start_char e) text = take n text @ slice text n (start_char e)"
  proof -
    have "take n (take (start_char e) text) @ drop n (take (start_char e) text)
            = take (start_char e) text"
      by (rule append_take_drop_id)
    moreover have "take n (take (start_char e) text) = take n text"
      using n by (simp add: min_absorb1)
    moreover have "drop n (take (start_char e) text) = slice text n (start_char e)"
      by (simp add: slice_def drop_take)
    ultimately show ?thesis by simp
  qed
  finally show ?case
    by simp
qed

lemma redact_text_eq_substitute_spans:
  assumes "non_overlapping es" "\<forall>e\<in>set es. well_formed text e"
  shows "redact_text es text = substitute_spans text es"
proof -
  let ?asc = "sort_key start_char es"
  have inj: "inj_on start_char (set es)"
    using assms by (rule start_char_inj)
  have "non_overlapping ?asc"
    using _ assms by (rule non_overlapping_perm) simp
  moreover have "\<forall>e\<in>set ?asc. well_formed text e"
    using assms(2) by simp
  moreover have "sorted (map start_char ?asc)"
    by simp
  ultimately have "foldr splice ?asc text = take 0 text @ substitute_from 0 text ?asc"
    by (intro foldr_splice_ascending) simp_all
  then show ?thesis
    by (simp add: redact_text_def substitute_spans_def descending_is_rev_ascending [OF inj]
        foldr_conv_fold)
qed

lemma redact_text_perm:
  assumes "mset es' = mset es" "non_overlapping es" "\<forall>e\<in>set es. well_formed text e"
  shows "redact_text es' text = redact_text es text"
proof -
  have "inj_on start_char (set es)"
    using assms(2,3) by (rule start_char_inj)
  then have "inj_on (\<lambda>e. - int (start_char e)) (set es')"
    using mset_eq_setD [OF assms(1)] by (auto simp: inj_on_def)
  with assms(1) have "sort_key (\<lambda>e. - int (start_char e)) es' = sort_key (\<lambda>e. - int (start_char e)) es"
    by (rule sort_key_eq_sort_key)
  then show ?thesis
    by (simp add: redact_text_def)
qed

lemma detect_with_regex_scenario:
  "detect_with_regex scenario_finditer scenario_text = [scenario_email, scenario_phone]"
  by (simp add: detect_with_regex_def scenario_finditer_def scenario_text_def slice_def
      scenario_email_def scenario_phone_def)

lemma scenario_well_formed:
  "non_overlapping [scenario_email, scenario_phone]"
  "\<forall>e\<in>set [scenario_email, scenario_phone]. well_formed scenario_text e"
  by (simp_all add: overlaps_def well_formed_def scenario_email_def scenario_phone_def
      scenario_text_def)

lemma substitute_spans_scenario:
  "substitute_spans scenario_text [scenario_email, scenario_phone] = ''Contact: [EMAIL], +[PHONE]''"
  by (simp add: substitute_spans_def slice_def scenario_email_def scenario_phone_def
      scenario_text_def)

text \<open>
  Claim C5. For every text and every list of pairwise non-overlapping PII entities (each
  a non-empty span inside the text), the redacted text \<open>process_resume\<close> computes does not
  depend on the order in which the entities were discovered: any permutation of the list
  gives the same text, and that text is the original with each entity's replacement
  substituted for its span \<open>[start_char, end_char)\<close>, because the entities are spliced in
  descending order of \<open>start_char\<close>.
\<close>

theorem redact_text_order_independent:
  assumes "non_overlapping es" "\<forall>e\<in>set es. well_formed text e" "mset es' = mset es"
  shows "redact_text es' text = redact_text es text
         \<and> redact_text es text = substitute_spans text es
         \<and> (detect_pii fi nm text = Inr es' \<longrightarrow>
              (\<exists>resume detail. process_resume fi nm now text cid = Inr (resume, detail)
                  \<and> redacted_text resume = substitute_spans text es))"
proof -
  have perm: "redact_text es' text = redact_text es text"
    using assms(3,1,2) by (rule redact_text_perm)
  have subst: "redact_text es text = substitute_spans text es"
    using assms(1,2) by (rule redact_text_eq_substitute_spans)
  have "detect_pii fi nm text = Inr es' \<longrightarrow>
          (\<exists>resume detail. process_resume fi nm now text cid = Inr (resume, detail)
              \<and> redacted_text resume = redact_text es' text)"
    by (simp add: process_resume_def Let_def)
  with perm subst show ?thesis
    by simp
qed

theorem redact_text_order_independent_witness:
  "redact_text [scenario_phone, scenario_email] scenario_text = ''Contact: [EMAIL], +[PHONE]''
   \<and> redact_text [scenario_email, scenario_phone] scenario_text = ''Contact: [EMAIL], +[PHONE]''
   \<and> (\<exists>resume detail.
         process_resume scenario_finditer (\<lambda>t. Inr []) \<lparr> dt_instant = 0, dt_stamp = ''20240101_000000'' \<rparr>
           scenario_text ''c1'' = Inr (resume, detail)
         \<and> redacted_text resume = ''Contact: [EMAIL], +[PHONE]'')"
proof -
  have perm: "mset [scenario_email, scenario_phone] = mset [scenario_phone, scenario_email]"
    by simp
  have det: "detect_pii scenario_finditer (\<lambda>t. Inr []) scenario_text = Inr [scenario_email, scenario_phone]"
    by (simp add: detect_pii_def detect_with_regex_scenario flush_def Let_def)
  have wf2: "non_overlapping [scenario_phone, scenario_email]"
    "\<forall>e\<in>set [scenario_phone, scenario_email]. well_formed scenario_text e"
    by (simp_all add: overlaps_def well_formed_def scenario_email_def scenario_phone_def
      scenario_text_def)
  have sub2: "substitute_spans scenario_text [scenario_phone, scenario_email] = ''Contact: [EMAIL], +[PHONE]''"
    by (simp add: substitute_spans_def slice_def scenario_email_def scenario_phone_def
      scenario_text_def)
  from redact_text_order_independent
         [OF scenario_well_formed perm [symmetric], of scenario_finditer "\<lambda>t. Inr []"
            "\<lparr> dt_instant = 0, dt_stamp = ''20240101_000000'' \<rparr>" "''c1''"]
  have a: "redact_text [scenario_phone, scenario_email] scenario_text = ''Contact: [EMAIL], +[PHONE]''
       \<and> redact_text [scenario_email, scenario_phone] scenario_text = ''Contact: [EMAIL], +[PHONE]''"
    by (simp add: substitute_spans_scenario)
  from redact_text_order_independent
         [OF scenario_well_formed, of "[scenario_email, scenario_phone]" scenario_finditer "\<lambda>t. Inr []"
            "\<lparr> dt_instant = 0, dt_stamp = ''20240101_000000'' \<rparr>" "''c1''"] det
  have b: "\<exists>resume detail.
         process_resume scenario_finditer (\<lambda>t. Inr []) \<lparr> dt_instant = 0, dt_stamp = ''20240101_000000'' \<rparr>
           scenario_text ''c1'' = Inr (resume, detail)
         \<and> redacted_text resume = ''Contact: [EMAIL], +[PHONE]''"
    by (simp add: substitute_spans_scenario)
  from a b show ?thesis by blast
qed

lemma detect_with_regex_entities:
  "e \<in> set (detect_with_regex fi text) \<Longrightarrow>
     confidence e = 1 \<and> entity_type e \<in> {''EMAIL'', ''PHONE'', ''URL''}
     \<and> replacement e = ''['' @ entity_type e @ '']''
     \<and> pii_text e = slice text (start_char e) (end_char e)"
  by (auto simp: detect_with_regex_def)

text \<open>
  The loop over the classifier's spans only appends: the entities of the patterns stay
  first in the list, as they were detected.
\<close>

lemma flush_appends: "\<exists>xs. ds_pii_entities (flush st) = ds_pii_entities st @ xs"
  by (simp add: flush_def split: option.split)

lemma ner_step_appends: "\<exists>xs. ds_pii_entities (ner_step ent st) = ds_pii_entities st @ xs"
proof -
  obtain xs where "ds_pii_entities (flush st) = ds_pii_entities st @ xs"
    using flush_appends by blast
  then show ?thesis
    by (auto simp: ner_step_def Let_def)
qed

lemma fold_ner_step_appends:
  "\<exists>xs. ds_pii_entities (fold ner_step ents st) = ds_pii_entities st @ xs"
proof (induction ents arbitrary: st)
  case Nil
  show ?case by simp
next
  case (Cons ent ents)
  obtain xs where xs: "ds_pii_entities (ner_step ent st) = ds_pii_entities st @ xs"
    using ner_step_appends by blast
  obtain ys where "ds_pii_entities (fold ner_step ents (ner_step ent st))
      = ds_pii_entities (ner_step ent st) @ ys"
    using Cons.IH by blast
  with xs show ?case
    by simp
qed

lemma detect_pii_keeps_regex_entities:
  assumes "nm text = Inr spans"
  shows "\<exists>rest. detect_pii fi nm text = Inr (detect_with_regex fi text @ rest)"
proof -
  let ?st0 = "\<lparr> ds_pii_entities = detect_with_regex fi text,
               ds_occupied_spans = map (\<lambda>ent. (start_char ent, end_char ent))
                                     (detect_with_regex fi text),
               ds_current_entity = None \<rparr>"
  obtain xs where xs: "ds_pii_entities (fold ner_step spans ?st0) = ds_pii_entities ?st0 @ xs"
    using fold_ner_step_appends by blast
  obtain ys where "ds_pii_entities (flush (fold ner_step spans ?st0))
      = ds_pii_entities (fold ner_step spans ?st0) @ ys"
    using flush_appends by blast
  with xs have "ds_pii_entities (flush (fold ner_step spans ?st0))
      = detect_with_regex fi text @ (xs @ ys)"
    by simp
  with assms show ?thesis
    by (simp add: detect_pii_def Let_def)
qed

lemma normalise_label_examples:
  "normalise_label ''FIRSTNAME'' = ''NAME''"
  "normalise_label ''LASTNAME'' = ''NAME''"
  by code_simp+

lemma detect_pii_signed:
  "detect_pii signed_finditer signed_ner signed_text = Inr signed_entities"
  by (simp add: detect_pii_def detect_with_regex_def signed_finditer_def signed_ner_def
      signed_text_def signed_entities_def slice_def ner_step_def flush_def Let_def
      overlaps_occupied_def normalise_label_examples PIIEntity_of_def)

lemma signed_well_formed:
  "non_overlapping signed_entities"
  "\<forall>e\<in>set signed_entities. well_formed signed_text e"
  by (simp_all add: overlaps_def well_formed_def signed_entities_def signed_text_def)

lemma substitute_spans_signed:
  "substitute_spans signed_text signed_entities = ''[NAME]: [EMAIL], +[PHONE]''"
  by (simp add: substitute_spans_def slice_def signed_entities_def signed_text_def)

text \<open>
  Claim C3, as amended. Every entity the regular-expression detectors produce (EMAIL,
  PHONE, URL) has confidence exactly 1.0, carries the placeholder of its type (\<open>[EMAIL]\<close>,
  \<open>[PHONE]\<close>, \<open>[URL]\<close>) as replacement and the matched text as text. Whatever spans the
  classifier reports, \<open>process_resume\<close> returns these entities first in its entity list,
  and when the entities of that list are pairwise non-overlapping spans of the text, the
  redacted text is the text with each entity replaced by its replacement and everything
  outside the entities untouched.
\<close>

theorem detect_with_regex_confidence_and_redaction:
  "(\<forall>e\<in>set (detect_with_regex fi text).
       confidence e = 1 \<and> entity_type e \<in> {''EMAIL'', ''PHONE'', ''URL''}
       \<and> replacement e = ''['' @ entity_type e @ '']''
       \<and> pii_text e = slice text (start_char e) (end_char e))
   \<and> (nm text = Inr spans \<longrightarrow>
         (\<exists>resume detail rest. process_resume fi nm now text cid = Inr (resume, detail)
             \<and> original_text resume = text
             \<and> pii_entities resume = detect_with_regex fi text @ rest
             \<and> (non_overlapping (pii_entities resume)
                  \<and> (\<forall>e\<in>set (pii_entities resume). well_formed text e) \<longrightarrow>
                 redacted_text resume = substitute_spans text (pii_entities resume))))"
proof -
  have ents: "\<forall>e\<in>set (detect_with_regex fi text).
       confidence e = 1 \<and> entity_type e \<in> {''EMAIL'', ''PHONE'', ''URL''}
       \<and> replacement e = ''['' @ entity_type e @ '']''
       \<and> pii_text e = slice text (start_char e) (end_char e)"
    using detect_with_regex_entities by blast
  have red: "\<exists>resume detail rest. process_resume fi nm now text cid = Inr (resume, detail)
             \<and> original_text resume = text
             \<and> pii_entities resume = detect_with_regex fi text @ rest
             \<and> (non_overlapping (pii_entities resume)
                  \<and> (\<forall>e\<in>set (pii_entities resume). well_formed text e) \<longrightarrow>
                 redacted_text resume = substitute_spans text (pii_entities resume))"
    if nm: "nm text = Inr spans"
  proof -
    obtain rest where rest: "detect_pii fi nm text = Inr (detect_with_regex fi text @ rest)"
      using detect_pii_keeps_regex_entities [of nm "text" spans fi] nm by blast
    let ?es = "detect_with_regex fi text @ rest"
    have "redact_text ?es text = substitute_spans text ?es"
      if "non_overlapping ?es \<and> (\<forall>e\<in>set ?es. well_formed text e)"
      using that by (intro redact_text_eq_substitute_spans) blast+
    with rest show ?thesis
      by (simp add: process_resume_def Let_def)
  qed
  from ents red show ?thesis by blast
qed

theorem detect_with_regex_confidence_and_redaction_witness:
  "list_all (\<lambda>e. confidence e = 1) (detect_with_regex signed_finditer signed_text)
   \<and> map replacement (detect_with_regex signed_finditer signed_text) = [''[EMAIL]'', ''[PHONE]'']
   \<and> signed_ner signed_text
       = Inr [\<lparr> entity_group = ''FIRSTNAME'', word = ''Jane'', score = 0.98,
                 span_start = 0, span_end = 4 \<rparr>,
              \<lparr> entity_group = ''LASTNAME'', word = ''Roe'', score = 0.97,
                 span_start = 5, span_end = 8 \<rparr>]
   \<and> (\<exists>resume detail.
         process_resume signed_finditer signed_ner \<lparr> dt_instant = 0, dt_stamp = ''20240101_000000'' \<rparr>
           signed_text [] = Inr (resume, detail)
         \<and> pii_entities resume = signed_entities
         \<and> non_overlapping (pii_entities resume)
         \<and> (\<forall>e\<in>set (pii_entities resume). well_formed signed_text e)
         \<and> redacted_text resume = ''[NAME]: [EMAIL], +[PHONE]'')"
proof -
  note inst = detect_with_regex_confidence_and_redaction
      [of signed_finditer signed_text signed_ner
          "[\<lparr> entity_group = ''FIRSTNAME'', word = ''Jane'', score = 0.98,
               span_start = 0, span_end = 4 \<rparr>,
            \<lparr> entity_group = ''LASTNAME'', word = ''Roe'', score = 0.97,
               span_start = 5, span_end = 8 \<rparr>]"
          "\<lparr> dt_instant = 0, dt_stamp = ''20240101_000000'' \<rparr>" "[]"]
  have h: "signed_ner signed_text
       = Inr [\<lparr> entity_group = ''FIRSTNAME'', word = ''Jane'', score = 0.98,
                 span_start = 0, span_end = 4 \<rparr>,
              \<lparr> entity_group = ''LASTNAME'', word = ''Roe'', score = 0.97,
                 span_start = 5, span_end = 8 \<rparr>]"
    by (simp add: signed_ner_def)
  have run: "\<exists>detail. process_resume signed_finditer signed_ner
                \<lparr> dt_instant = 0, dt_stamp = ''20240101_000000'' \<rparr> signed_text []
      = Inr (\<lparr> rr_id = ''cand_20240101_000000'', original_text = signed_text,
               redacted_text = redact_text signed_entities signed_text,
               pii_entities = signed_entities,
               processed_at = \<lparr> dt_instant = 0, dt_stamp = ''20240101_000000'' \<rparr> \<rparr>, detail)"
    by (simp add: process_resume_def detect_pii_signed Let_def)
  from inst have a: "list_all (\<lambda>e. confidence e = 1) (detect_with_regex signed_finditer signed_text)"
    unfolding list_all_iff by blast
  have b: "map replacement (detect_with_regex signed_finditer signed_text) = [''[EMAIL]'', ''[PHONE]'']"
    by (simp add: detect_with_regex_def signed_finditer_def)
  from inst h obtain resume detail rest where r:
      "process_resume signed_finditer signed_ner \<lparr> dt_instant = 0, dt_stamp = ''20240101_000000'' \<rparr>
           signed_text [] = Inr (resume, detail)"
      "non_overlapping (pii_entities resume)
         \<and> (\<forall>e\<in>set (pii_entities resume). well_formed signed_text e) \<longrightarrow>
       redacted_text resume = substitute_spans signed_text (pii_entities resume)"
    by blast
  from r(1) run have p: "pii_entities resume = signed_entities"
    by auto
  with r(2) signed_well_formed
  have "redacted_text resume = ''[NAME]: [EMAIL], +[PHONE]''"
    by (simp add: substitute_spans_signed)
  with r(1) p signed_well_formed
  have c: "\<exists>resume detail.
         process_resume signed_finditer signed_ner \<lparr> dt_instant = 0, dt_stamp = ''20240101_000000'' \<rparr>
           signed_text [] = Inr (resume, detail)
         \<and> pii_entities resume = signed_entities
         \<and> non_overlapping (pii_entities resume)
         \<and> (\<forall>e\<in>set (pii_entities resume). well_formed signed_text e)
         \<and> redacted_text resume = ''[NAME]: [EMAIL], +[PHONE]''"
    by (intro exI [of _ resume] exI [of _ detail]) simp
  show ?thesis
    by (intro conjI) (rule a, rule b, rule h, rule c)
qed

lemma redact_text_overlap:
  "redact_text (detect_with_regex overlap_finditer overlap_text) overlap_text = ''Web: [URL]''"
  by (simp add: redact_text_def detect_with_regex_def overlap_finditer_def overlap_text_def
      splice_def slice_def)

lemma process_resume_overlap:
  "map_sum id (redacted_text \<circ> fst)
     (process_resume overlap_finditer no_spans \<lparr> dt_instant = 0, dt_stamp = ''20240101_000000'' \<rparr>
        overlap_text ''c1'')
   = Inr ''Web: [URL]''"
  by (simp add: process_resume_def detect_pii_def no_spans_def flush_def Let_def
      redact_text_overlap)

text \<open>
  Claim C3 as stated fails twice. On the sample line of the specification the two
  entities the patterns detect carry confidence 1, not 100. And where two patterns match
  overlapping spans the surrounding text is not left untouched: in
  \<open>Web: x.io/u/5551234567 ok\<close> the phone pattern matches inside the match of the URL
  pattern, and the redacted text that \<open>process_resume\<close> returns, \<open>Web: [URL]\<close>, has lost the
  \<open> ok\<close> that follows both.
\<close>

theorem detect_with_regex_confidence_counterexample:
  "map confidence (detect_with_regex scenario_finditer scenario_text) = [1, 1]
   \<and> map confidence (detect_with_regex scenario_finditer scenario_text) \<noteq> [100, 100]
   \<and> map start_char (detect_with_regex overlap_finditer overlap_text) = [12, 5]
   \<and> map end_char (detect_with_regex overlap_finditer overlap_text) = [22, 22]
   \<and> drop 22 overlap_text = '' ok''
   \<and> redact_text (detect_with_regex overlap_finditer overlap_text) overlap_text = ''Web: [URL]''
   \<and> redact_text (detect_with_regex overlap_finditer overlap_text) overlap_text
        \<noteq> ''Web: [URL] ok''
   \<and> map_sum id (redacted_text \<circ> fst)
        (process_resume overlap_finditer no_spans
           \<lparr> dt_instant = 0, dt_stamp = ''20240101_000000'' \<rparr> overlap_text ''c1'')
        = Inr ''Web: [URL]''"
  by (simp add: detect_with_regex_scenario scenario_email_def scenario_phone_def
      redact_text_overlap process_resume_overlap)
     (simp add: detect_with_regex_def overlap_finditer_def overlap_text_def)


section \<open>Merging the classifier's spans\<close>

lemma ner_step_discard:
  "normalise_label (entity_group ent) \<in> {''NAME'', ''LOCATION''} \<Longrightarrow>
   overlaps_occupied (span_start ent) (span_end ent) (ds_occupied_spans st) \<Longrightarrow>
   ner_step ent st = st"
  by (simp add: ner_step_def Let_def)

lemma ner_step_merge:
  assumes "normalise_label (entity_group ent) \<in> {''NAME'', ''LOCATION''}"
    and "\<not> overlaps_occupied (span_start ent) (span_end ent) (ds_occupied_spans st)"
    and "ds_current_entity st = Some c"
    and "cur_entity_type c = normalise_label (entity_group ent)"
    and "span_start ent \<le> cur_end_char c + 1"
  shows "ner_step ent st =
     st \<lparr> ds_current_entity :=
            Some (c \<lparr> cur_text := cur_text c @ (if entity_group ent = cur_entity_group c
                                                then word ent else '' '' @ word ent),
                      cur_entity_group := entity_group ent,
                      cur_end_char := span_end ent,
                      cur_confidence := max (cur_confidence c) (score ent) \<rparr>) \<rparr>"
  using assms by (auto simp: ner_step_def Let_def)

lemma ner_step_new:
  assumes "normalise_label (entity_group ent) \<in> {''NAME'', ''LOCATION''}"
    and "\<not> overlaps_occupied (span_start ent) (span_end ent) (ds_occupied_spans st)"
    and "ds_current_entity st = Some c"
    and "cur_entity_type c \<noteq> normalise_label (entity_group ent) \<or> cur_end_char c + 2 \<le> span_start ent"
  shows "ner_step ent st =
     st \<lparr> ds_pii_entities := ds_pii_entities st @ [PIIEntity_of c],
          ds_occupied_spans := ds_occupied_spans st @ [(cur_start_char c, cur_end_char c)],
          ds_current_entity :=
            Some \<lparr> cur_entity_type = normalise_label (entity_group ent),
                   cur_entity_group = entity_group ent, cur_text = word ent,
                   cur_start_char = span_start ent, cur_end_char = span_end ent,
                   cur_confidence = score ent,
                   cur_replacement = ''['' @ normalise_label (entity_group ent) @ '']'' \<rparr> \<rparr>"
  using assms by (auto simp: ner_step_def Let_def flush_def)

lemma fold_ner_step_run:
  assumes "T \<in> {''NAME'', ''LOCATION''}"
    and "\<forall>t\<in>set ts. normalise_label (entity_group t) = T"
    and "\<forall>t\<in>set ts. \<not> overlaps_occupied (span_start t) (span_end t) (ds_occupied_spans st)"
    and "ds_current_entity st = Some c" "cur_entity_type c = T"
    and "contiguous (cur_end_char c) ts"
  shows "\<exists>c'. fold ner_step ts st = st \<lparr> ds_current_entity := Some c' \<rparr>
           \<and> cur_entity_type c' = T
           \<and> cur_start_char c' = cur_start_char c
           \<and> cur_end_char c' = (if ts = [] then cur_end_char c else span_end (last ts))
           \<and> cur_confidence c' = Max (insert (cur_confidence c) (set (map score ts)))
           \<and> cur_replacement c' = cur_replacement c
           \<and> cur_text c' = cur_text c @ join_words (cur_entity_group c) ts"
  using assms
proof (induction ts arbitrary: st c)
  case Nil
  then have "st = st \<lparr> ds_current_entity := Some c \<rparr>"
    by simp
  with Nil show ?case
    by (intro exI [of _ c]) simp
next
  case (Cons t ts)
  let ?c1 = "c \<lparr> cur_text := cur_text c @ (if entity_group t = cur_entity_group c
                                                then word t else '' '' @ word t),
                      cur_entity_group := entity_group t,
                      cur_end_char := span_end t,
                      cur_confidence := max (cur_confidence c) (score t) \<rparr>"
  let ?st1 = "st \<lparr> ds_current_entity := Some ?c1 \<rparr>"
  have step: "ner_step t st = ?st1"
    using Cons.prems by (intro ner_step_merge) auto
  have "\<exists>c'. fold ner_step ts ?st1 = ?st1 \<lparr> ds_current_entity := Some c' \<rparr>
           \<and> cur_entity_type c' = T
           \<and> cur_start_char c' = cur_start_char ?c1
           \<and> cur_end_char c' = (if ts = [] then cur_end_char ?c1 else span_end (last ts))
           \<and> cur_confidence c' = Max (insert (cur_confidence ?c1) (set (map score ts)))
           \<and> cur_replacement c' = cur_replacement ?c1
           \<and> cur_text c' = cur_text ?c1 @ join_words (cur_entity_group ?c1) ts"
    using Cons.prems by (intro Cons.IH) auto
  then obtain c' where c': "fold ner_step ts ?st1 = ?st1 \<lparr> ds_current_entity := Some c' \<rparr>"
      "cur_entity_type c' = T" "cur_start_char c' = cur_start_char c"
      "cur_end_char c' = (if ts = [] then span_end t else span_end (last ts))"
      "cur_confidence c' = Max (insert (max (cur_confidence c) (score t)) (set (map score ts)))"
      "cur_replacement c' = cur_replacement c"
      "cur_text c' = cur_text c @ join_words (cur_entity_group c) (t # ts)"
    by auto
  have mx: "Max (insert (max (cur_confidence c) (score t)) (set (map score ts)))
          = Max (insert (cur_confidence c) (set (map score (t # ts))))"
  proof -
    have "Max (insert (cur_confidence c) (insert (score t) (set (map score ts))))
          = max (cur_confidence c) (Max (insert (score t) (set (map score ts))))"
      by (rule Max_insert) auto
    also have "Max (insert (score t) (set (map score ts)))
          = (if set (map score ts) = {} then score t else max (score t) (Max (set (map score ts))))"
      by simp
    finally have r: "Max (insert (cur_confidence c) (set (map score (t # ts))))
          = max (cur_confidence c) (if set (map score ts) = {} then score t
                                    else max (score t) (Max (set (map score ts))))"
      by simp
    have "Max (insert (max (cur_confidence c) (score t)) (set (map score ts)))
          = (if set (map score ts) = {} then max (cur_confidence c) (score t)
             else max (max (cur_confidence c) (score t)) (Max (set (map score ts))))"
      by simp
    with r show ?thesis
      by (simp add: max.assoc)
  qed
  show ?case
    using c' step mx by (intro exI [of _ c']) auto
qed

lemma ner_step_first:
  assumes "normalise_label (entity_group ent) \<in> {''NAME'', ''LOCATION''}"
    and "\<not> overlaps_occupied (span_start ent) (span_end ent) (ds_occupied_spans st)"
    and "ds_current_entity st = None"
  shows "ner_step ent st =
     st \<lparr> ds_current_entity :=
            Some \<lparr> cur_entity_type = normalise_label (entity_group ent),
                   cur_entity_group = entity_group ent, cur_text = word ent,
                   cur_start_char = span_start ent, cur_end_char = span_end ent,
                   cur_confidence = score ent,
                   cur_replacement = ''['' @ normalise_label (entity_group ent) @ '']'' \<rparr> \<rparr>"
  using assms by (auto simp: ner_step_def Let_def flush_def)

lemma detect_pii_single_run:
  assumes T: "T \<in> {''NAME'', ''LOCATION''}"
    and lab: "\<forall>t\<in>set (t0 # ts). normalise_label (entity_group t) = T"
    and free: "\<forall>t\<in>set (t0 # ts). \<not> overlaps_occupied (span_start t) (span_end t)
                  (map (\<lambda>e. (start_char e, end_char e)) (detect_with_regex fi text))"
    and run: "contiguous (span_end t0) ts"
    and nm: "nm text = Inr (t0 # ts)"
  shows "\<exists>e. detect_pii fi nm text = Inr (detect_with_regex fi text @ [e])
           \<and> entity_type e = T
           \<and> start_char e = span_start t0 \<and> end_char e = span_end (last (t0 # ts))
           \<and> confidence e = Max (set (map score (t0 # ts)))
           \<and> replacement e = ''['' @ T @ '']''
           \<and> pii_text e = word t0 @ join_words (entity_group t0) ts"
proof -
  let ?occ = "map (\<lambda>e. (start_char e, end_char e)) (detect_with_regex fi text)"
  let ?st0 = "\<lparr> ds_pii_entities = detect_with_regex fi text, ds_occupied_spans = ?occ,
               ds_current_entity = None \<rparr>"
  let ?c0 = "\<lparr> cur_entity_type = normalise_label (entity_group t0),
                   cur_entity_group = entity_group t0, cur_text = word t0,
                   cur_start_char = span_start t0, cur_end_char = span_end t0,
                   cur_confidence = score t0,
                   cur_replacement = ''['' @ normalise_label (entity_group t0) @ '']'' \<rparr>"
  let ?st1 = "?st0 \<lparr> ds_current_entity := Some ?c0 \<rparr>"
  have t0: "normalise_label (entity_group t0) = T"
    using lab by simp
  have first: "ner_step t0 ?st0 = ?st1"
    using T t0 free by (intro ner_step_first) auto
  have "\<exists>c'. fold ner_step ts ?st1 = ?st1 \<lparr> ds_current_entity := Some c' \<rparr>
           \<and> cur_entity_type c' = T
           \<and> cur_start_char c' = cur_start_char ?c0
           \<and> cur_end_char c' = (if ts = [] then cur_end_char ?c0 else span_end (last ts))
           \<and> cur_confidence c' = Max (insert (cur_confidence ?c0) (set (map score ts)))
           \<and> cur_replacement c' = cur_replacement ?c0
           \<and> cur_text c' = cur_text ?c0 @ join_words (cur_entity_group ?c0) ts"
    using T lab free run t0 by (intro fold_ner_step_run) auto
  then obtain c' where c': "fold ner_step ts ?st1 = ?st1 \<lparr> ds_current_entity := Some c' \<rparr>"
      "cur_entity_type c' = T" "cur_start_char c' = span_start t0"
      "cur_end_char c' = (if ts = [] then span_end t0 else span_end (last ts))"
      "cur_confidence c' = Max (insert (score t0) (set (map score ts)))"
      "cur_replacement c' = ''['' @ T @ '']''"
      "cur_text c' = word t0 @ join_words (entity_group t0) ts"
    using t0 by auto
  have "detect_pii fi nm text = Inr (detect_with_regex fi text @ [PIIEntity_of c'])"
    using nm first c'(1) by (simp add: detect_pii_def Let_def flush_def)
  moreover have "entity_type (PIIEntity_of c') = T"
    "start_char (PIIEntity_of c') = span_start t0"
    "end_char (PIIEntity_of c') = span_end (last (t0 # ts))"
    "confidence (PIIEntity_of c') = Max (set (map score (t0 # ts)))"
    "replacement (PIIEntity_of c') = ''['' @ T @ '']''"
    "pii_text (PIIEntity_of c') = word t0 @ join_words (entity_group t0) ts"
    using c' by (simp_all add: PIIEntity_of_def)
  ultimately show ?thesis
    by blast
qed

text \<open>
  Claim C6. In \<open>detect_pii\<close>, a span of the classifier of type NAME or LOCATION that
  overlaps an occupied span is discarded. A span of the same normalised type as the
  buffer is merged into it exactly when it starts at most one character after the
  buffer's \<open>end_char\<close>; a gap of two or more characters, or another type, flushes the
  buffer and starts a new entity. Merged text is joined with no separator when the
  span's sub-label equals the sub-label of the previous token and with one space
  otherwise, and the merged confidence is the maximum of the confidences merged so far.
  The entity that a flush emits carries the buffer's type, text, offsets, confidence and
  replacement. So a run of contiguous spans of one type makes \<open>detect_pii\<close> return one
  entity after the regex entities: it spans the run, its text is the words of the run
  joined by that rule, and its confidence is the maximum of the confidences of its spans.
\<close>

theorem detect_pii_merge_rules:
  "(normalise_label (entity_group ent) \<in> {''NAME'', ''LOCATION''}
      \<and> overlaps_occupied (span_start ent) (span_end ent) (ds_occupied_spans st) \<longrightarrow>
    ner_step ent st = st)
   \<and> (normalise_label (entity_group ent) \<in> {''NAME'', ''LOCATION''}
      \<and> \<not> overlaps_occupied (span_start ent) (span_end ent) (ds_occupied_spans st)
      \<and> ds_current_entity st = Some c
      \<and> cur_entity_type c = normalise_label (entity_group ent)
      \<and> span_start ent \<le> cur_end_char c + 1 \<longrightarrow>
    ner_step ent st =
      st \<lparr> ds_current_entity :=
             Some (c \<lparr> cur_text := cur_text c @ (if entity_group ent = cur_entity_group c
                                                 then word ent else '' '' @ word ent),
                       cur_entity_group := entity_group ent,
                       cur_end_char := span_end ent,
                       cur_confidence := max (cur_confidence c) (score ent) \<rparr>) \<rparr>)
   \<and> (normalise_label (entity_group ent) \<in> {''NAME'', ''LOCATION''}
      \<and> \<not> overlaps_occupied (span_start ent) (span_end ent) (ds_occupied_spans st)
      \<and> ds_current_entity st = Some c
      \<and> (cur_entity_type c \<noteq> normalise_label (entity_group ent)
          \<or> cur_end_char c + 2 \<le> span_start ent) \<longrightarrow>
    ner_step ent st =
      st \<lparr> ds_pii_entities := ds_pii_entities st @ [PIIEntity_of c],
           ds_occupied_spans := ds_occupied_spans st @ [(cur_start_char c, cur_end_char c)],
           ds_current_entity :=
             Some \<lparr> cur_entity_type = normalise_label (entity_group ent),
                    cur_entity_group = entity_group ent, cur_text = word ent,
                    cur_start_char = span_start ent, cur_end_char = span_end ent,
                    cur_confidence = score ent,
                    cur_replacement = ''['' @ normalise_label (entity_group ent) @ '']'' \<rparr> \<rparr>)
   \<and> (T \<in> {''NAME'', ''LOCATION''}
      \<and> (\<forall>t\<in>set (t0 # ts). normalise_label (entity_group t) = T)
      \<and> (\<forall>t\<in>set (t0 # ts). \<not> overlaps_occupied (span_start t) (span_end t)
                  (map (\<lambda>e. (start_char e, end_char e)) (detect_with_regex fi text)))
      \<and> contiguous (span_end t0) ts
      \<and> nm text = Inr (t0 # ts) \<longrightarrow>
    (\<exists>e. detect_pii fi nm text = Inr (detect_with_regex fi text @ [e])
           \<and> entity_type e = T
           \<and> start_char e = span_start t0 \<and> end_char e = span_end (last (t0 # ts))
           \<and> confidence e = Max (set (map score (t0 # ts)))
           \<and> replacement e = ''['' @ T @ '']''
           \<and> pii_text e = word t0 @ join_words (entity_group t0) ts))
   \<and> entity_type (PIIEntity_of c) = cur_entity_type c
   \<and> pii_text (PIIEntity_of c) = cur_text c
   \<and> start_char (PIIEntity_of c) = cur_start_char c
   \<and> end_char (PIIEntity_of c) = cur_end_char c
   \<and> confidence (PIIEntity_of c) = cur_confidence c
   \<and> replacement (PIIEntity_of c) = cur_replacement c"
proof -
  have emitted: "entity_type (PIIEntity_of c) = cur_entity_type c"
    "pii_text (PIIEntity_of c) = cur_text c"
    "start_char (PIIEntity_of c) = cur_start_char c"
    "end_char (PIIEntity_of c) = cur_end_char c"
    "confidence (PIIEntity_of c) = cur_confidence c"
    "replacement (PIIEntity_of c) = cur_replacement c"
    by (simp_all add: PIIEntity_of_def)
  show ?thesis
    using ner_step_discard [of ent st] ner_step_merge [of ent st c] ner_step_new [of ent st c]
          detect_pii_single_run [of T t0 ts fi "text" nm] emitted
    by blast
qed

theorem detect_pii_merge_rules_witness:
  "ner_step last_name_span (john_state [(3, 8)]) = john_state [(3, 8)]
   \<and> ner_step last_name_span (john_state []) =
       (john_state [])
         \<lparr> ds_current_entity :=
             Some (john_buffer \<lparr> cur_text := ''John Smith'', cur_entity_group := ''LASTNAME'',
                                 cur_end_char := 10, cur_confidence := 0.95 \<rparr>) \<rparr>
   \<and> ds_pii_entities (ner_step far_name_span (john_state [])) = [PIIEntity_of john_buffer]
   \<and> pii_text (PIIEntity_of john_buffer) = ''John''
   \<and> (\<exists>e. detect_pii (\<lambda>p t. []) (\<lambda>t. Inr [first_name_span, last_name_span]) ''John Smith''
             = Inr [e]
          \<and> entity_type e = ''NAME'' \<and> start_char e = 0 \<and> end_char e = 10
          \<and> confidence e = 0.95 \<and> replacement e = ''[NAME]''
          \<and> pii_text e = ''John Smith'')"
proof -
  have discard_hyp:
    "normalise_label (entity_group last_name_span) \<in> {''NAME'', ''LOCATION''}
      \<and> overlaps_occupied (span_start last_name_span) (span_end last_name_span)
           (ds_occupied_spans (john_state [(3, 8)]))"
    by (simp add: last_name_span_def john_state_def normalise_label_examples overlaps_occupied_def)
  have merge_hyp:
    "normalise_label (entity_group last_name_span) \<in> {''NAME'', ''LOCATION''}
      \<and> \<not> overlaps_occupied (span_start last_name_span) (span_end last_name_span)
             (ds_occupied_spans (john_state []))
      \<and> ds_current_entity (john_state []) = Some john_buffer
      \<and> cur_entity_type john_buffer = normalise_label (entity_group last_name_span)
      \<and> span_start last_name_span \<le> cur_end_char john_buffer + 1"
    by (simp add: last_name_span_def john_state_def john_buffer_def normalise_label_examples
        overlaps_occupied_def)
  have new_hyp:
    "normalise_label (entity_group far_name_span) \<in> {''NAME'', ''LOCATION''}
      \<and> \<not> overlaps_occupied (span_start far_name_span) (span_end far_name_span)
             (ds_occupied_spans (john_state []))
      \<and> ds_current_entity (john_state []) = Some john_buffer
      \<and> (cur_entity_type john_buffer \<noteq> normalise_label (entity_group far_name_span)
          \<or> cur_end_char john_buffer + 2 \<le> span_start far_name_span)"
    by (simp add: far_name_span_def john_state_def john_buffer_def normalise_label_examples
        overlaps_occupied_def)
  have run_hyp:
    "''NAME'' \<in> {''NAME'', ''LOCATION''}
      \<and> (\<forall>t\<in>set (first_name_span # [last_name_span]). normalise_label (entity_group t) = ''NAME'')
      \<and> (\<forall>t\<in>set (first_name_span # [last_name_span]).
            \<not> overlaps_occupied (span_start t) (span_end t)
                (map (\<lambda>e. (start_char e, end_char e)) (detect_with_regex (\<lambda>p t. []) ''John Smith'')))
      \<and> contiguous (span_end first_name_span) [last_name_span]
      \<and> (\<lambda>t. Inr [first_name_span, last_name_span]) ''John Smith''
          = (Inr (first_name_span # [last_name_span]) :: exn + ner_span list)"
    by (simp add: first_name_span_def last_name_span_def normalise_label_examples
        overlaps_occupied_def detect_with_regex_def)
  note near = detect_pii_merge_rules
      [of last_name_span "john_state [(3, 8)]" john_buffer "''NAME''" first_name_span
          "[last_name_span]" "\<lambda>p t. []" "''John Smith''" "\<lambda>t. Inr [first_name_span, last_name_span]"]
  note merged = detect_pii_merge_rules
      [of last_name_span "john_state []" john_buffer "''NAME''" first_name_span
          "[last_name_span]" "\<lambda>p t. []" "''John Smith''" "\<lambda>t. Inr [first_name_span, last_name_span]"]
  note far = detect_pii_merge_rules
      [of far_name_span "john_state []" john_buffer "''NAME''" first_name_span
          "[last_name_span]" "\<lambda>p t. []" "''John Smith''" "\<lambda>t. Inr [first_name_span, last_name_span]"]
  from near discard_hyp
  have a: "ner_step last_name_span (john_state [(3, 8)]) = john_state [(3, 8)]"
    by blast
  from merged merge_hyp
  have "ner_step last_name_span (john_state []) =
      (john_state []) \<lparr> ds_current_entity :=
             Some (john_buffer \<lparr> cur_text := cur_text john_buffer
                                    @ (if entity_group last_name_span = cur_entity_group john_buffer
                                       then word last_name_span else '' '' @ word last_name_span),
                       cur_entity_group := entity_group last_name_span,
                       cur_end_char := span_end last_name_span,
                       cur_confidence := max (cur_confidence john_buffer) (score last_name_span) \<rparr>) \<rparr>"
    by blast
  then have b: "ner_step last_name_span (john_state []) =
       (john_state [])
         \<lparr> ds_current_entity :=
             Some (john_buffer \<lparr> cur_text := ''John Smith'', cur_entity_group := ''LASTNAME'',
                                 cur_end_char := 10, cur_confidence := 0.95 \<rparr>) \<rparr>"
    by (simp add: last_name_span_def john_buffer_def)
  from far new_hyp
  have "ner_step far_name_span (john_state []) =
      (john_state []) \<lparr> ds_pii_entities := ds_pii_entities (john_state []) @ [PIIEntity_of john_buffer],
           ds_occupied_spans := ds_occupied_spans (john_state [])
                                  @ [(cur_start_char john_buffer, cur_end_char john_buffer)],
           ds_current_entity :=
             Some \<lparr> cur_entity_type = normalise_label (entity_group far_name_span),
                    cur_entity_group = entity_group far_name_span, cur_text = word far_name_span,
                    cur_start_char = span_start far_name_span, cur_end_char = span_end far_name_span,
                    cur_confidence = score far_name_span,
                    cur_replacement = ''['' @ normalise_label (entity_group far_name_span) @ '']'' \<rparr> \<rparr>"
    by blast
  then have c: "ds_pii_entities (ner_step far_name_span (john_state [])) = [PIIEntity_of john_buffer]"
    by (simp add: john_state_def)
  from merged run_hyp
  have "\<exists>e. detect_pii (\<lambda>p t. []) (\<lambda>t. Inr [first_name_span, last_name_span]) ''John Smith''
             = Inr (detect_with_regex (\<lambda>p t. []) ''John Smith'' @ [e])
           \<and> entity_type e = ''NAME''
           \<and> start_char e = span_start first_name_span
           \<and> end_char e = span_end (last (first_name_span # [last_name_span]))
           \<and> confidence e = Max (set (map score (first_name_span # [last_name_span])))
           \<and> replacement e = ''['' @ ''NAME'' @ '']''
           \<and> pii_text e = word first_name_span
                            @ join_words (entity_group first_name_span) [last_name_span]"
    by blast
  then have d: "\<exists>e. detect_pii (\<lambda>p t. []) (\<lambda>t. Inr [first_name_span, last_name_span]) ''John Smith''
             = Inr [e]
          \<and> entity_type e = ''NAME'' \<and> start_char e = 0 \<and> end_char e = 10
          \<and> confidence e = 0.95 \<and> replacement e = ''[NAME]''
          \<and> pii_text e = ''John Smith''"
    by (simp add: first_name_span_def last_name_span_def detect_with_regex_def)
  from far have "pii_text (PIIEntity_of john_buffer) = cur_text john_buffer"
    by blast
  then have e: "pii_text (PIIEntity_of john_buffer) = ''John''"
    by (simp add: john_buffer_def)
  from a b c d e show ?thesis
    by blast
qed

section \<open>The orchestrator\<close>

lemma call_callback_returns:
  "call_callback (Some (\<lambda>msg. None)) msg = None"
  by (simp add: call_callback_def)

lemma guarded_step_returns:
  "guarded_step (Some (\<lambda>msg. None)) (Inr v) ok_msg fail_msg wrap = Inr v"
  by (simp add: guarded_step_def call_callback_def)

text \<open>
  When \<open>process_resume\<close> raises and the progress callback returns, step 2 hands on the
  original text, no entities, and the class \<open>CandidateDetail\<close> in place of a contact card.
\<close>

lemma redact_step_recovers:
  assumes "process_resume (regex_finditer env) (ner_pipeline env) (datetime_now env)
             resume_text candidate_id = Inl e"
    and "call_callback progress_callback ''**Status:** Resume Redaction failed'' = None"
  shows "redact_step env progress_callback resume_text candidate_id =
           Inr (\<lparr> rr_id = candidate_id, original_text = resume_text,
                  redacted_text = resume_text, pii_entities = [],
                  processed_at = datetime_now env \<rparr>,
                CandidateDetail_class)"
  using assms by (simp add: redact_step_def)

lemma redact_step_after_failure:
  assumes "process_resume (regex_finditer env) (ner_pipeline env) (datetime_now env)
             resume_text candidate_id = Inl e"
    and "redact_step env progress_callback resume_text candidate_id = Inr (processed, details)"
  shows "details = CandidateDetail_class"
  using assms by (auto simp: redact_step_def split: option.splits)

text \<open>A step whose failure ends the run: the run can only go on from its result.\<close>

lemma fst_case_sum_raises:
  assumes "\<And>v. X = Inr v \<Longrightarrow> \<exists>e'. fst (F v) = Inl e'"
  shows "\<exists>e'. fst (case X of Inl e \<Rightarrow> (Inl (h e), s) | Inr v \<Rightarrow> F v) = Inl e'"
  using assms by (cases X) auto

lemma fst_case_sum_pair_raises:
  assumes "\<And>p d. X = Inr (p, d) \<Longrightarrow> \<exists>e'. fst (G p d) = Inl e'"
  shows "\<exists>e'. fst (case X of Inl e \<Rightarrow> (Inl (h e), s) | Inr (p, d) \<Rightarrow> G p d) = Inl e'"
  using assms by (cases X) auto

lemma guarded_step_result:
  assumes "guarded_step progress_callback (Inr v) ok_msg fail_msg wrap = Inr v'"
  shows "v' = v"
  using assms by (auto simp: guarded_step_def split: option.splits)

text \<open>
  Whatever the other collaborators do, a run of \<open>analyse\<close> in which the resume loads and
  \<open>process_resume\<close> raises returns no report: it ends in an exception.
\<close>

lemma analyse_raises_after_redaction_failure:
  assumes load: "load_document env resume_source = Inr resume_text"
    and redact: "process_resume (regex_finditer env) (ner_pipeline env) (datetime_now env)
             resume_text
             (if candidate_id = [] then ''cand_'' @ dt_stamp (datetime_now env) else candidate_id)
           = Inl e"
  shows "\<exists>e'. fst (analyse env self resume_source job_source candidate_id job_id
                     progress_callback) = Inl e'"
  unfolding analyse_def Let_def load
  apply (rule fst_case_sum_raises)
  apply (drule guarded_step_result)
  apply hypsubst
  apply (rule fst_case_sum_raises)
  apply (rule fst_case_sum_pair_raises)
  apply (drule redact_step_after_failure [OF redact])
  apply hypsubst
  apply (rule fst_case_sum_raises)
  apply (rule fst_case_sum_raises)
  apply (rule fst_case_sum_raises)
  apply (rule fst_case_sum_pair_raises)
  apply (simp add: AnalysisReport_init_def)
  done

lemma process_resume_classifier_down:
  "process_resume (regex_finditer classifier_down) (ner_pipeline classifier_down)
     (datetime_now classifier_down) txt cid = Inl (Raised ''model unavailable'')"
  by (simp add: process_resume_def detect_pii_def classifier_down_def Let_def)

lemma agents_classifier_down:
  "parse_resume classifier_down txt cid = Inr (sample_resume \<lparr> pr_candidate_id := cid \<rparr>)"
  "parse_job classifier_down txt jid = Inr (sample_job \<lparr> pj_job_id := jid \<rparr>)"
  "match_candidate_to_job classifier_down r j =
     Inr (sample_fit \<lparr> fa_candidate_id := pr_candidate_id r, fa_job_id := pj_job_id j \<rparr>)"
  "generate_summary classifier_down f r j None None =
     Inr (sample_summary \<lparr> sg_candidate_id := pr_candidate_id r, sg_job_id := pj_job_id j \<rparr>,
          [''request'', ''response''])"
  by (simp_all add: parse_resume_def parse_job_def match_candidate_to_job_def
        generate_summary_def classifier_down_def)

lemma agents_classifier_up:
  "parse_resume classifier_up txt cid = Inr (sample_resume \<lparr> pr_candidate_id := cid \<rparr>)"
  "parse_job classifier_up txt jid = Inr (sample_job \<lparr> pj_job_id := jid \<rparr>)"
  "match_candidate_to_job classifier_up r j =
     Inr (sample_fit \<lparr> fa_candidate_id := pr_candidate_id r, fa_job_id := pj_job_id j \<rparr>)"
  "generate_summary classifier_up f r j None None =
     Inr (sample_summary \<lparr> sg_candidate_id := pr_candidate_id r, sg_job_id := pj_job_id j \<rparr>,
          [''request'', ''response''])"
  by (simp_all add: parse_resume_def parse_job_def match_candidate_to_job_def
        generate_summary_def classifier_up_def classifier_down_def)

text \<open>
  Claim C2. The claim says that \<open>analyse\<close> survives a failure of the redaction stage and
  returns a report with an empty contact card. In the source the handler of step 2
  assigns the class \<open>CandidateDetail\<close> to \<open>candidate_details\<close>, and the construction of the
  report in step 7 rejects it: with both documents loaded, the classifier raising, every
  agent answering and a progress callback that returns, \<open>analyse\<close> raises the validation
  error of \<open>AnalysisReport\<close> and returns no report.
\<close>

theorem analyse_redaction_failure_raises:
  "fst (analyse classifier_down \<lparr> message_thread = None \<rparr> ''resume.txt'' ''job.txt''
          ''c1'' ''j1'' (Some (\<lambda>msg. None)))
     = Inl (ValidationError
              ''candidate_details: Input should be a valid dictionary or instance of CandidateDetail'')"
proof -
  have redact: "redact_step classifier_down (Some (\<lambda>msg. None)) ''Jane Doe, engineer'' ''c1''
      = Inr (\<lparr> rr_id = ''c1'', original_text = ''Jane Doe, engineer'',
               redacted_text = ''Jane Doe, engineer'', pii_entities = [],
               processed_at = datetime_now classifier_down \<rparr>,
             CandidateDetail_class)"
    by (rule redact_step_recovers [OF process_resume_classifier_down call_callback_returns])
  have load: "load_document classifier_down src = Inr ''Jane Doe, engineer''" for src
    by (simp add: classifier_down_def)
  show ?thesis
    unfolding analyse_def Let_def
    by (simp add: load guarded_step_returns redact agents_classifier_down AnalysisReport_init_def)
qed

text \<open>With a classifier that answers, the same run returns a report.\<close>

lemma analyse_classifier_up_returns:
  "\<exists>report. fst (analyse classifier_up \<lparr> message_thread = None \<rparr> ''resume.txt'' ''job.txt''
                    ''c1'' ''j1'' (Some (\<lambda>msg. None))) = Inr report"
proof -
  have detect: "detect_pii (regex_finditer classifier_up) (ner_pipeline classifier_up) t = Inr []"
    for t
    by (simp add: detect_pii_def detect_with_regex_def classifier_up_def classifier_down_def
          flush_def Let_def)
  have "\<exists>p d. redact_step classifier_up (Some (\<lambda>msg. None)) t ''c1''
                 = Inr (p, CandidateDetail_instance d)" for t
    by (simp add: redact_step_def process_resume_def detect Let_def call_callback_def)
  then obtain p d where redact:
    "redact_step classifier_up (Some (\<lambda>msg. None)) ''Jane Doe, engineer'' ''c1''
       = Inr (p, CandidateDetail_instance d)"
    by blast
  have load: "load_document classifier_up src = Inr ''Jane Doe, engineer''" for src
    by (simp add: classifier_up_def classifier_down_def)
  show ?thesis
    unfolding analyse_def Let_def
    by (simp add: load guarded_step_returns redact agents_classifier_up AnalysisReport_init_def)
qed

section \<open>Regenerating the summary\<close>

text \<open>
  Claim C9. After \<open>regenerate_summary\<close> the report differs from the report given at most
  in its \<open>summary\<close>: \<open>candidate_details\<close>, \<open>job_id\<close>, \<open>fit_analysis\<close>, \<open>resume\<close>, \<open>job\<close> and
  \<open>generated_at\<close> are unchanged. When the summary agent answers, the summary returned and
  stored is the agent's output with the identifiers of the report's resume and job, and
  the orchestrator's message thread becomes the history of that run; the agent was given
  the thread stored before. When the agent raises, the call raises and changes nothing.
\<close>

theorem regenerate_summary_frame:
  assumes "regenerate_summary env self report recruiter_feedback = (result, self', report')"
  shows "ar_candidate_details report' = ar_candidate_details report
       \<and> ar_job_id report' = ar_job_id report
       \<and> ar_fit_analysis report' = ar_fit_analysis report
       \<and> ar_resume report' = ar_resume report
       \<and> ar_job report' = ar_job report
       \<and> ar_generated_at report' = ar_generated_at report
       \<and> report' = report \<lparr> ar_summary := ar_summary report' \<rparr>
       \<and> (case summary_agent env
                 (Revision_context (ar_resume report) (ar_job report) (ar_fit_analysis report)
                    recruiter_feedback)
                 (message_thread self) of
            Inr (output, history) \<Rightarrow>
              result = Inr (output \<lparr> sg_candidate_id := pr_candidate_id (ar_resume report),
                                     sg_job_id := pj_job_id (ar_job report) \<rparr>)
              \<and> ar_summary report' = output \<lparr> sg_candidate_id := pr_candidate_id (ar_resume report),
                                               sg_job_id := pj_job_id (ar_job report) \<rparr>
              \<and> self' = self \<lparr> message_thread := Some history \<rparr>
          | Inl e \<Rightarrow>
              result = Inl (Exception (''Summary generation failed: '' @ exn_str e))
              \<and> report' = report \<and> self' = self)"
  using assms
  by (auto simp: regenerate_summary_def generate_summary_def split: sum.splits prod.splits)

theorem regenerate_summary_frame_witness:
  "regenerate_summary classifier_up \<lparr> message_thread = Some [''request'', ''response''] \<rparr>
       sample_report ''Stress the leadership experience''
     = (Inr (sample_summary \<lparr> sg_candidate_id := ''c1'', sg_job_id := ''j1'' \<rparr>),
        \<lparr> message_thread = Some [''request'', ''response'', ''request'', ''response''] \<rparr>,
        sample_report \<lparr> ar_summary := sample_summary \<lparr> sg_candidate_id := ''c1'',
                                                        sg_job_id := ''j1'' \<rparr> \<rparr>)
   \<and> ar_candidate_details
       (sample_report \<lparr> ar_summary := sample_summary \<lparr> sg_candidate_id := ''c1'',
                                                       sg_job_id := ''j1'' \<rparr> \<rparr>)
       = ar_candidate_details sample_report
   \<and> ar_generated_at
       (sample_report \<lparr> ar_summary := sample_summary \<lparr> sg_candidate_id := ''c1'',
                                                       sg_job_id := ''j1'' \<rparr> \<rparr>)
       = ar_generated_at sample_report"
proof -
  have run:
    "regenerate_summary classifier_up \<lparr> message_thread = Some [''request'', ''response''] \<rparr>
         sample_report ''Stress the leadership experience''
       = (Inr (sample_summary \<lparr> sg_candidate_id := ''c1'', sg_job_id := ''j1'' \<rparr>),
          \<lparr> message_thread = Some [''request'', ''response'', ''request'', ''response''] \<rparr>,
          sample_report \<lparr> ar_summary := sample_summary \<lparr> sg_candidate_id := ''c1'',
                                                          sg_job_id := ''j1'' \<rparr> \<rparr>)"
    by (simp add: regenerate_summary_def generate_summary_def classifier_up_def
          classifier_down_def sample_report_def)
  from regenerate_summary_frame [OF run] run show ?thesis
    by blast
qed

end
